theory Spec2Isabelle
  imports Main "HOL-Library.Word" "HOL-Library.Multiset"
begin

section \<open>The NVMe namespace front end of the bridge\<close>

text \<open>
  A shallow embedding of \<^verbatim>\<open>pkg/frontend/nvme_namespace.go\<close>: the six gRPC handlers
  \<^verbatim>\<open>CreateNvmeNamespace\<close>, \<^verbatim>\<open>DeleteNvmeNamespace\<close>, \<^verbatim>\<open>UpdateNvmeNamespace\<close>,
  \<^verbatim>\<open>ListNvmeNamespaces\<close>, \<^verbatim>\<open>GetNvmeNamespace\<close> and \<^verbatim>\<open>NvmeNamespaceStats\<close> of the
  \<^verbatim>\<open>Server\<close>, with its three maps (\<^verbatim>\<open>Namespaces\<close>, \<^verbatim>\<open>Subsystems\<close>, \<^verbatim>\<open>Pagination\<close>)
  as explicit state, every error return and every nil dereference as a value, and the
  JSON-RPC client, the validation libraries and the UUID generator as an environment.
\<close>

subsection \<open>Machine integers\<close>

text \<open>
  Go's \<^verbatim>\<open>int32\<close> and \<^verbatim>\<open>int64\<close> are words read with \<open>sint\<close>. Go's \<^verbatim>\<open>int\<close> is taken
  at 64 bits (the targets of the bridge are 64-bit). The conversion \<^verbatim>\<open>int(x)\<close> of an
  \<^verbatim>\<open>int32\<close> extends the sign (\<open>scast\<close>), \<^verbatim>\<open>int32(x)\<close> of an \<^verbatim>\<open>int\<close> keeps the low 32
  bits (\<open>ucast\<close>).
\<close>

type_synonym int32 = "32 word"
type_synonym int64 = "64 word"
type_synonym go_int = "64 word"

definition int_of_int32 :: "int32 \<Rightarrow> go_int" where
  "int_of_int32 x = scast x"

definition int32_of_int :: "go_int \<Rightarrow> int32" where
  "int32_of_int x = ucast x"

subsection \<open>Errors\<close>

text \<open>
  A handler returns a gRPC status error (\<^verbatim>\<open>status.Error\<close>, \<^verbatim>\<open>status.Errorf\<close>), or a plain
  Go error (what a validation library or \<^verbatim>\<open>rpc.Call\<close> returned, or \<^verbatim>\<open>fmt.Errorf\<close>), or it
  panics on a nil pointer or a slice bound. A status error is identified by its code; the
  message text that the source formats into it is left out of the model. A plain error
  keeps its message.
\<close>

datatype code = InvalidArgument | NotFound | Unimplemented

datatype error = StatusError code | GoError string | Panic

subsection \<open>Protobuf messages\<close>

text \<open>
  A message field that is a pointer in the generated Go code is an \<open>option\<close>
  (\<open>None\<close> is nil). \<^verbatim>\<open>ObjectKey\<close> and \<^verbatim>\<open>Uuid\<close> are messages with the single field
  \<^verbatim>\<open>Value\<close>: a pointer to one is modelled as the optional value.
\<close>

type_synonym ObjectKey = string
type_synonym Uuid = string

record NvmeNamespaceSpec =
  SubsystemId :: "ObjectKey option"
  HostNsid :: int32
  VolumeId :: "ObjectKey option"
  Uuid :: "Uuid option"
  Nguid :: string
  Eui64 :: int64

record NvmeNamespaceStatus =
  PciState :: int32
  PciOperState :: int32

record NvmeNamespace =
  Name :: string
  Spec :: "NvmeNamespaceSpec option"
  Status :: "NvmeNamespaceStatus option"

record NvmeSubsystemSpec =
  Nqn :: string

record NvmeSubsystem =
  SubsysSpec :: "NvmeSubsystemSpec option"

record CreateNvmeNamespaceRequest =
  cr_NvmeNamespace :: "NvmeNamespace option"
  NvmeNamespaceId :: string

record DeleteNvmeNamespaceRequest =
  del_Name :: string
  del_AllowMissing :: bool

record UpdateNvmeNamespaceRequest =
  upd_NvmeNamespace :: "NvmeNamespace option"
  UpdateMask :: "string list option"
  upd_AllowMissing :: bool

record ListNvmeNamespacesRequest =
  Parent :: string
  PageSize :: int32
  PageToken :: string

record GetNvmeNamespaceRequest =
  get_Name :: string

record NvmeNamespaceStatsRequest =
  NamespaceId :: "ObjectKey option"

record ListNvmeNamespacesResponse =
  NvmeNamespaces :: "NvmeNamespace list"
  NextPageToken :: string

text \<open>Of \<^verbatim>\<open>VolumeStats\<close> the source sets the two operation counters; the other fields
  keep their zero value and are not modelled.\<close>

record VolumeStats =
  ReadOpsCount :: int32
  WriteOpsCount :: int32

record NvmeNamespaceStatsResponse =
  Id :: "ObjectKey option"
  Stats :: "VolumeStats option"

datatype request =
    CreateReq CreateNvmeNamespaceRequest
  | DeleteReq DeleteNvmeNamespaceRequest
  | UpdateReq UpdateNvmeNamespaceRequest
  | ListReq ListNvmeNamespacesRequest
  | GetReq GetNvmeNamespaceRequest
  | StatsReq NvmeNamespaceStatsRequest

subsection \<open>Engine commands\<close>

text \<open>
  The parameter and result structs of package \<^verbatim>\<open>models\<close> are not part of the source
  file; they are modelled with the fields the handlers read and write, at the types the
  handlers' conversions fix (\<^verbatim>\<open>Nsid\<close> is compared with an \<^verbatim>\<open>int\<close>; the counters are
  converted with \<^verbatim>\<open>int32(...)\<close>).
\<close>

record NvdaControllerNvmeNamespaceAttachParams =
  att_BdevType :: string
  att_Bdev :: string
  att_Nsid :: go_int
  att_Subnqn :: string
  att_Cntlid :: go_int
  att_UUID :: string
  att_Nguid :: string
  att_Eui64 :: string

record NvdaControllerNvmeNamespaceDetachParams =
  det_Nsid :: go_int
  det_Subnqn :: string
  det_Cntlid :: go_int

record NvdaControllerNvmeNamespaceListParams =
  lst_Subnqn :: string
  lst_Cntlid :: go_int

record NvdaNamespaceEntry =
  Nsid :: go_int

record NvdaControllerNvmeNamespaceListResult =
  res_Namespaces :: "NvdaNamespaceEntry list"

record NvdaBdevStats =
  BdevName :: string
  ReadIos :: go_int
  WriteIos :: go_int

record NvdaControllerStats =
  Bdevs :: "NvdaBdevStats list"

record NvdaControllerNvmeStatsResult =
  Controllers :: "NvdaControllerStats list"

text \<open>One entry of the log of calls made through \<^verbatim>\<open>s.rpc.Call\<close>.\<close>

datatype rpc_call =
    Attach NvdaControllerNvmeNamespaceAttachParams
  | Detach NvdaControllerNvmeNamespaceDetachParams
  | ListNs NvdaControllerNvmeNamespaceListParams
  | GetIostat

subsection \<open>The environment of the handlers\<close>

text \<open>
  Everything the handlers call outside the file. The validation libraries return
  \<open>None\<close> for nil and \<open>Some msg\<close> for an error. The engine is reached by
  \<^verbatim>\<open>s.rpc.Call\<close>, one function for each method name, which answers from the calls made
  so far and the parameters: \<open>Inl msg\<close> is the error of the call, \<open>Inr r\<close> the decoded
  result. \<open>NewUUID n\<close> is the value of the \<open>n\<close>-th call of \<^verbatim>\<open>uuid.New\<close>.
  \<^verbatim>\<open>server.ProtoClone\<close> copies a message; values are immutable here and the copy is the
  value.
\<close>

record Env =
  ValidateRequiredFields :: "request \<Rightarrow> string option"
  ValidateUserSettable :: "string \<Rightarrow> string option"
  resourcename_Validate :: "string \<Rightarrow> string option"
  fieldmask_Validate :: "string list option \<Rightarrow> NvmeNamespace option \<Rightarrow> string option"
  ResourceIDToVolumeName :: "string \<Rightarrow> string"
  ExtractPagination :: "int32 \<Rightarrow> string \<Rightarrow> (string \<rightharpoonup> go_int) \<Rightarrow> error + (go_int \<times> go_int)"
  NewUUID :: "nat \<Rightarrow> 128 word"
  rpc_attach :: "rpc_call list \<Rightarrow> NvdaControllerNvmeNamespaceAttachParams \<Rightarrow> string + bool"
  rpc_detach :: "rpc_call list \<Rightarrow> NvdaControllerNvmeNamespaceDetachParams \<Rightarrow> string + bool"
  rpc_list :: "rpc_call list \<Rightarrow> NvdaControllerNvmeNamespaceListParams
                 \<Rightarrow> string + NvdaControllerNvmeNamespaceListResult"
  rpc_iostat :: "rpc_call list \<Rightarrow> string + NvdaControllerNvmeStatsResult"

subsection \<open>State\<close>

record Server =
  Namespaces :: "string \<rightharpoonup> NvmeNamespace"
  Subsystems :: "string \<rightharpoonup> NvmeSubsystem"
  Pagination :: "string \<rightharpoonup> go_int"

text \<open>The server together with the log of engine calls and the number of UUIDs drawn.\<close>

record World =
  server :: Server
  rpc_log :: "rpc_call list"
  uuids_drawn :: nat

definition called :: "rpc_call \<Rightarrow> World \<Rightarrow> World" where
  "called c w = w\<lparr>rpc_log := rpc_log w @ [c]\<rparr>"

definition is_Attach :: "rpc_call \<Rightarrow> bool" where
  "is_Attach c = (case c of Attach _ \<Rightarrow> True | _ \<Rightarrow> False)"

definition attach_count :: "World \<Rightarrow> nat" where
  "attach_count w = length (filter is_Attach (rpc_log w))"

subsection \<open>Text of numbers and UUIDs\<close>

text \<open>\<^verbatim>\<open>strconv.FormatInt(i, 10)\<close>.\<close>

definition digit_char :: "nat \<Rightarrow> char" where
  "digit_char d = char_of (48 + d)"

fun digits10 :: "nat \<Rightarrow> string" where
  "digits10 n = (if n < 10 then [digit_char n] else digits10 (n div 10) @ [digit_char (n mod 10)])"

declare digits10.simps [simp del]

definition FormatInt10 :: "int \<Rightarrow> string" where
  "FormatInt10 i = (if i < 0 then CHR ''-'' # digits10 (nat (- i)) else digits10 (nat i))"

text \<open>\<^verbatim>\<open>uuid.UUID.String\<close>: 32 lower-case hexadecimal digits in the groups 8-4-4-4-12.\<close>

definition hex_char :: "nat \<Rightarrow> char" where
  "hex_char d = (if d < 10 then char_of (48 + d) else char_of (87 + d))"

fun hex_digits :: "nat \<Rightarrow> nat \<Rightarrow> string" where
  "hex_digits 0 v = []"
| "hex_digits (Suc n) v = hex_digits n (v div 16) @ [hex_char (v mod 16)]"

definition uuid_String :: "128 word \<Rightarrow> string" where
  "uuid_String u =
     (let v = unat u in
      hex_digits 8 (v div 2 ^ 96) @ ''-'' @ hex_digits 4 (v div 2 ^ 80) @ ''-'' @
      hex_digits 4 (v div 2 ^ 64) @ ''-'' @ hex_digits 4 (v div 2 ^ 48) @ ''-'' @
      hex_digits 12 v)"

text \<open>\<^verbatim>\<open>resourceid.NewSystemGenerated\<close> and \<^verbatim>\<open>uuid.New().String()\<close>: the text of the next
  UUID.\<close>

definition next_uuid_string :: "Env \<Rightarrow> World \<Rightarrow> string" where
  "next_uuid_string env w = uuid_String (NewUUID env (uuids_drawn w))"

definition draw_uuid :: "World \<Rightarrow> World" where
  "draw_uuid w = w\<lparr>uuids_drawn := Suc (uuids_drawn w)\<rparr>"

subsection \<open>CreateNvmeNamespace\<close>

text \<open>
  Lines 40 to 60 of the source: the required fields, the subsystem parameters, and the
  resource name, from the identifier of the caller when there is one (it must pass
  \<^verbatim>\<open>resourceid.ValidateUserSettable\<close>) and from a new UUID otherwise. The UUID is drawn in
  both cases. The result is the namespace of the request, its spec, the value of its
  subsystem key and the resolved name.
\<close>

definition resolve_create ::
  "Env \<Rightarrow> World \<Rightarrow> CreateNvmeNamespaceRequest
     \<Rightarrow> error + (NvmeNamespace \<times> NvmeNamespaceSpec \<times> string \<times> string)" where
  "resolve_create env w req =
     (case ValidateRequiredFields env (CreateReq req) of
        Some msg \<Rightarrow> Inl (GoError msg)
      | None \<Rightarrow>
     (case cr_NvmeNamespace req of
        None \<Rightarrow> Inl Panic
      | Some ns \<Rightarrow>
     (case Spec ns of
        None \<Rightarrow> Inl (StatusError InvalidArgument)
      | Some sp \<Rightarrow>
     (case SubsystemId sp of
        None \<Rightarrow> Inl (StatusError InvalidArgument)
      | Some sid \<Rightarrow>
     if sid = [] then Inl (StatusError InvalidArgument)
     else if NvmeNamespaceId req \<noteq> [] then
       (case ValidateUserSettable env (NvmeNamespaceId req) of
          Some msg \<Rightarrow> Inl (GoError msg)
        | None \<Rightarrow> Inr (ns, sp, sid, ResourceIDToVolumeName env (NvmeNamespaceId req)))
     else Inr (ns, sp, sid, ResourceIDToVolumeName env (next_uuid_string env w))))))"

text \<open>Whether the source has reached line 50, where the UUID is drawn.\<close>

definition create_draws :: "Env \<Rightarrow> CreateNvmeNamespaceRequest \<Rightarrow> bool" where
  "create_draws env req =
     (ValidateRequiredFields env (CreateReq req) = None \<and>
      (case cr_NvmeNamespace req of
         None \<Rightarrow> False
       | Some ns \<Rightarrow>
      (case Spec ns of
         None \<Rightarrow> False
       | Some sp \<Rightarrow> (case SubsystemId sp of None \<Rightarrow> False | Some sid \<Rightarrow> sid \<noteq> []))))"

definition attach_params ::
  "NvmeNamespaceSpec \<Rightarrow> string \<Rightarrow> string \<Rightarrow> string
     \<Rightarrow> NvdaControllerNvmeNamespaceAttachParams" where
  "attach_params sp vol nqn uu =
     \<lparr>att_BdevType = ''spdk'', att_Bdev = vol, att_Nsid = int_of_int32 (HostNsid sp),
      att_Subnqn = nqn, att_Cntlid = 0, att_UUID = uu, att_Nguid = Nguid sp,
      att_Eui64 = FormatInt10 (sint (Eui64 sp))\<rparr>"

definition attached_status :: NvmeNamespaceStatus where
  "attached_status = \<lparr>PciState = 2, PciOperState = 1\<rparr>"

definition CreateNvmeNamespace ::
  "Env \<Rightarrow> World \<Rightarrow> CreateNvmeNamespaceRequest \<Rightarrow> (error + NvmeNamespace) \<times> World" where
  "CreateNvmeNamespace env w req =
     (let w1 = (if create_draws env req then draw_uuid w else w) in
      case resolve_create env w req of
        Inl e \<Rightarrow> (Inl e, w1)
      | Inr (ns, sp, sid, name) \<Rightarrow>
     (case Namespaces (server w1) name of
        Some namespace \<Rightarrow> (Inr namespace, w1)
      | None \<Rightarrow>
     (case Subsystems (server w1) sid of
        None \<Rightarrow> (Inl (StatusError NotFound), w1)
      | Some subsys \<Rightarrow>
     (case VolumeId sp of
        None \<Rightarrow> (Inl Panic, w1)
      | Some vol \<Rightarrow>
     (case SubsysSpec subsys of
        None \<Rightarrow> (Inl Panic, w1)
      | Some ssp \<Rightarrow>
     (case Uuid sp of
        None \<Rightarrow> (Inl Panic, w1)
      | Some uu \<Rightarrow>
     (let params = attach_params sp vol (Nqn ssp) uu;
          w2 = called (Attach params) w1 in
      case rpc_attach env (rpc_log w1) params of
        Inl msg \<Rightarrow> (Inl (GoError msg), w2)
      | Inr result \<Rightarrow>
          if \<not> result then (Inl (StatusError InvalidArgument), w2)
          else
            (let response = ns\<lparr>Name := name, Status := Some attached_status\<rparr> in
             (Inr response,
              w2\<lparr>server := (server w2)\<lparr>Namespaces := (Namespaces (server w2))(name \<mapsto> response)\<rparr>\<rparr>)))))))))"

subsection \<open>DeleteNvmeNamespace\<close>

definition DeleteNvmeNamespace ::
  "Env \<Rightarrow> World \<Rightarrow> DeleteNvmeNamespaceRequest \<Rightarrow> (error + unit) \<times> World" where
  "DeleteNvmeNamespace env w req =
     (case ValidateRequiredFields env (DeleteReq req) of
        Some msg \<Rightarrow> (Inl (GoError msg), w)
      | None \<Rightarrow>
     (case resourcename_Validate env (del_Name req) of
        Some msg \<Rightarrow> (Inl (GoError msg), w)
      | None \<Rightarrow>
     (case Namespaces (server w) (del_Name req) of
        None \<Rightarrow>
          if del_AllowMissing req then (Inr (), w) else (Inl (StatusError NotFound), w)
      | Some namespace \<Rightarrow>
     (case Spec namespace of
        None \<Rightarrow> (Inl Panic, w)
      | Some sp \<Rightarrow>
     (case SubsystemId sp of
        None \<Rightarrow> (Inl Panic, w)
      | Some sid \<Rightarrow>
     (case Subsystems (server w) sid of
        None \<Rightarrow> (Inl (GoError (''unable to find subsystem '' @ sid)), w)
      | Some subsys \<Rightarrow>
     (case SubsysSpec subsys of
        None \<Rightarrow> (Inl Panic, w)
      | Some ssp \<Rightarrow>
     (let params = \<lparr>det_Nsid = int_of_int32 (HostNsid sp), det_Subnqn = Nqn ssp, det_Cntlid = 0\<rparr>;
          w1 = called (Detach params) w in
      case rpc_detach env (rpc_log w) params of
        Inl msg \<Rightarrow> (Inl (GoError msg), w1)
      | Inr result \<Rightarrow>
          if \<not> result then (Inl (StatusError InvalidArgument), w1)
          else
            (Inr (),
             w1\<lparr>server := (server w1)\<lparr>Namespaces := (Namespaces (server w1))(Name namespace := None)\<rparr>\<rparr>)))))))))"

subsection \<open>UpdateNvmeNamespace\<close>

definition UpdateNvmeNamespace ::
  "Env \<Rightarrow> World \<Rightarrow> UpdateNvmeNamespaceRequest \<Rightarrow> (error + NvmeNamespace) \<times> World" where
  "UpdateNvmeNamespace env w req =
     (case ValidateRequiredFields env (UpdateReq req) of
        Some msg \<Rightarrow> (Inl (GoError msg), w)
      | None \<Rightarrow>
     (case upd_NvmeNamespace req of
        None \<Rightarrow> (Inl Panic, w)
      | Some ns \<Rightarrow>
     (case resourcename_Validate env (Name ns) of
        Some msg \<Rightarrow> (Inl (GoError msg), w)
      | None \<Rightarrow>
     (case Namespaces (server w) (Name ns) of
        None \<Rightarrow> (Inl (StatusError NotFound), w)
      | Some volume \<Rightarrow>
     (case fieldmask_Validate env (UpdateMask req) (upd_NvmeNamespace req) of
        Some msg \<Rightarrow> (Inl (GoError msg), w)
      | None \<Rightarrow> (Inl (StatusError Unimplemented), w))))))"

subsection \<open>ListNvmeNamespaces\<close>

text \<open>
  \<^verbatim>\<open>sort.Slice\<close> with the order of \<^verbatim>\<open>Spec.HostNsid\<close>, a signed 32-bit comparison. The
  comparison function dereferences \<^verbatim>\<open>Spec\<close>, and a sort of two or more elements compares
  every element at least once: a nil \<^verbatim>\<open>Spec\<close> among them panics. \<^verbatim>\<open>sort.Slice\<close> is not
  stable; the model orders equal keys as the input has them, which is one of the orders
  the library may produce, and the only one where elements with equal keys are equal, as
  in \<^verbatim>\<open>ListNvmeNamespaces\<close>.
\<close>

definition nsid_key :: "NvmeNamespace \<Rightarrow> int" where
  "nsid_key n = (case Spec n of None \<Rightarrow> 0 | Some sp \<Rightarrow> sint (HostNsid sp))"

definition sortNvmeNamespaces :: "NvmeNamespace list \<Rightarrow> error + NvmeNamespace list" where
  "sortNvmeNamespaces namespaces =
     (if 2 \<le> length namespaces \<and> (\<exists>n \<in> set namespaces. Spec n = None) then Inl Panic
      else Inr (sort_key nsid_key namespaces))"

text \<open>
  Modelled from the spec: \<^verbatim>\<open>server.LimitPagination\<close> of the imported package
  \<^verbatim>\<open>opi-spdk-bridge/pkg/server\<close> is not in the source. The spec has it truncate the
  engine's result to the requested window and tell whether elements remain beyond the
  window: the window starts at the offset and ends \<open>size\<close> elements later, or at the end
  of the result when that comes first, and elements remain when the window ends before
  the result does. The end is computed in Go's \<^verbatim>\<open>int\<close>. Where offset and end describe no
  slice of the result (a negative offset, an offset beyond the end) the model panics, as
  a Go slice expression does.
\<close>

definition LimitPagination :: "'a list \<Rightarrow> go_int \<Rightarrow> go_int \<Rightarrow> error + ('a list \<times> bool)" where
  "LimitPagination result offset size' =
     (let end0 = offset + size';
          hasMoreElements = (sint end0 < int (length result));
          end1 = (if hasMoreElements then sint end0 else int (length result))
      in if 0 \<le> sint offset \<and> sint offset \<le> end1
         then Inr (take (nat (end1 - sint offset)) (drop (nat (sint offset)) result),
                   hasMoreElements)
         else Inl Panic)"

text \<open>The element that line 230 builds from an entry of the engine's result: a namespace
  with the host identifier and nothing else.\<close>

definition blob :: "int32 \<Rightarrow> NvmeNamespace" where
  "blob h =
     \<lparr>Name = [],
      Spec = Some \<lparr>SubsystemId = None, HostNsid = h, VolumeId = None, Uuid = None, Nguid = [],
                   Eui64 = 0\<rparr>,
      Status = None\<rparr>"

definition blob_of :: "NvdaNamespaceEntry \<Rightarrow> NvmeNamespace" where
  "blob_of r = blob (int32_of_int (Nsid r))"

definition store_token :: "string \<Rightarrow> go_int \<Rightarrow> World \<Rightarrow> World" where
  "store_token token v w =
     w\<lparr>server := (server w)\<lparr>Pagination := (Pagination (server w))(token \<mapsto> v)\<rparr>\<rparr>"

definition ListNvmeNamespaces ::
  "Env \<Rightarrow> World \<Rightarrow> ListNvmeNamespacesRequest \<Rightarrow> (error + ListNvmeNamespacesResponse) \<times> World" where
  "ListNvmeNamespaces env w req =
     (case ValidateRequiredFields env (ListReq req) of
        Some msg \<Rightarrow> (Inl (GoError msg), w)
      | None \<Rightarrow>
     (case ExtractPagination env (PageSize req) (PageToken req) (Pagination (server w)) of
        Inl perr \<Rightarrow> (Inl perr, w)
      | Inr (size', offset) \<Rightarrow>
     (case Subsystems (server w) (Parent req) of
        None \<Rightarrow> (Inl (StatusError NotFound), w)
      | Some subsys \<Rightarrow>
     (case SubsysSpec subsys of
        None \<Rightarrow> (Inl Panic, w)
      | Some ssp \<Rightarrow>
     (let params = \<lparr>lst_Subnqn = Nqn ssp, lst_Cntlid = 0\<rparr>;
          w1 = called (ListNs params) w in
      case rpc_list env (rpc_log w) params of
        Inl msg \<Rightarrow> (Inl (GoError msg), w1)
      | Inr result \<Rightarrow>
     (case LimitPagination (res_Namespaces result) offset size' of
        Inl e \<Rightarrow> (Inl e, w1)
      | Inr (page, hasMoreElements) \<Rightarrow>
     (let w2 = (if hasMoreElements
                then store_token (next_uuid_string env w1) (offset + size') (draw_uuid w1)
                else w1) in
      case sortNvmeNamespaces (map blob_of page) of
        Inl e \<Rightarrow> (Inl e, w2)
      | Inr Blobarray \<Rightarrow> (Inr \<lparr>NvmeNamespaces = Blobarray, NextPageToken = []\<rparr>, w2))))))))"

subsection \<open>GetNvmeNamespace\<close>

definition GetNvmeNamespace ::
  "Env \<Rightarrow> World \<Rightarrow> GetNvmeNamespaceRequest \<Rightarrow> (error + NvmeNamespace) \<times> World" where
  "GetNvmeNamespace env w req =
     (case ValidateRequiredFields env (GetReq req) of
        Some msg \<Rightarrow> (Inl (GoError msg), w)
      | None \<Rightarrow>
     (case resourcename_Validate env (get_Name req) of
        Some msg \<Rightarrow> (Inl (GoError msg), w)
      | None \<Rightarrow>
     (case Namespaces (server w) (get_Name req) of
        None \<Rightarrow> (Inl (StatusError NotFound), w)
      | Some namespace \<Rightarrow>
     (case Spec namespace of
        None \<Rightarrow> (Inl Panic, w)
      | Some sp \<Rightarrow>
     (case SubsystemId sp of
        None \<Rightarrow> (Inl Panic, w)
      | Some sid \<Rightarrow>
     (case Subsystems (server w) sid of
        None \<Rightarrow> (Inl (StatusError NotFound), w)
      | Some subsys \<Rightarrow>
     (case SubsysSpec subsys of
        None \<Rightarrow> (Inl Panic, w)
      | Some ssp \<Rightarrow>
     (let params = \<lparr>lst_Subnqn = Nqn ssp, lst_Cntlid = 0\<rparr>;
          w1 = called (ListNs params) w in
      case rpc_list env (rpc_log w) params of
        Inl msg \<Rightarrow> (Inl (GoError msg), w1)
      | Inr result \<Rightarrow>
     (case find (\<lambda>r. Nsid r = int_of_int32 (HostNsid sp)) (res_Namespaces result) of
        Some r \<Rightarrow>
          (Inr \<lparr>Name = [],
                Spec = Some \<lparr>SubsystemId = None, HostNsid = int32_of_int (Nsid r),
                             VolumeId = None, Uuid = None, Nguid = [], Eui64 = 0\<rparr>,
                Status = Some \<lparr>PciState = 2, PciOperState = 1\<rparr>\<rparr>, w1)
      | None \<Rightarrow> (Inl (StatusError InvalidArgument), w1))))))))))"

subsection \<open>NvmeNamespaceStats\<close>

text \<open>The two nested loops of lines 312 to 321: the first device, in the order of the
  controllers and of their devices, that has the name.\<close>

fun scan_bdevs :: "string \<Rightarrow> NvdaBdevStats list \<Rightarrow> NvdaBdevStats option" where
  "scan_bdevs vol [] = None"
| "scan_bdevs vol (r # rs) = (if BdevName r = vol then Some r else scan_bdevs vol rs)"

fun scan_controllers :: "string \<Rightarrow> NvdaControllerStats list \<Rightarrow> NvdaBdevStats option" where
  "scan_controllers vol [] = None"
| "scan_controllers vol (c # cs) =
     (case scan_bdevs vol (Bdevs c) of Some r \<Rightarrow> Some r | None \<Rightarrow> scan_controllers vol cs)"

definition NvmeNamespaceStats ::
  "Env \<Rightarrow> World \<Rightarrow> NvmeNamespaceStatsRequest \<Rightarrow> (error + NvmeNamespaceStatsResponse) \<times> World" where
  "NvmeNamespaceStats env w req =
     (case ValidateRequiredFields env (StatsReq req) of
        Some msg \<Rightarrow> (Inl (GoError msg), w)
      | None \<Rightarrow>
     (case NamespaceId req of
        None \<Rightarrow> (Inl Panic, w)
      | Some key \<Rightarrow>
     (case resourcename_Validate env key of
        Some msg \<Rightarrow> (Inl (GoError msg), w)
      | None \<Rightarrow>
     (case Namespaces (server w) key of
        None \<Rightarrow> (Inl (StatusError NotFound), w)
      | Some namespace \<Rightarrow>
     (let w1 = called GetIostat w in
      case rpc_iostat env (rpc_log w) of
        Inl msg \<Rightarrow> (Inl (GoError msg), w1)
      | Inr result \<Rightarrow>
     (case Spec namespace of
        None \<Rightarrow> (Inl Panic, w1)
      | Some sp \<Rightarrow>
     (case VolumeId sp of
        None \<Rightarrow> (Inl Panic, w1)
      | Some vol \<Rightarrow>
     (case scan_controllers vol (Controllers result) of
        Some r \<Rightarrow>
          (Inr \<lparr>Id = NamespaceId req,
                Stats = Some \<lparr>ReadOpsCount = int32_of_int (ReadIos r),
                              WriteOpsCount = int32_of_int (WriteIos r)\<rparr>\<rparr>, w1)
      | None \<Rightarrow> (Inl (StatusError InvalidArgument), w1)))))))))"

subsection \<open>Sequences of requests\<close>

text \<open>The state after a request, whichever handler serves it; a handler that fails or
  panics leaves the state it had reached.\<close>

fun after :: "Env \<Rightarrow> World \<Rightarrow> request \<Rightarrow> World" where
  "after env w (CreateReq r) = snd (CreateNvmeNamespace env w r)"
| "after env w (DeleteReq r) = snd (DeleteNvmeNamespace env w r)"
| "after env w (UpdateReq r) = snd (UpdateNvmeNamespace env w r)"
| "after env w (ListReq r) = snd (ListNvmeNamespaces env w r)"
| "after env w (GetReq r) = snd (GetNvmeNamespace env w r)"
| "after env w (StatsReq r) = snd (NvmeNamespaceStats env w r)"

text \<open>A change of the subsystem directory, which handlers outside this file maintain.\<close>

definition with_directory :: "(string \<rightharpoonup> NvmeSubsystem) \<Rightarrow> World \<Rightarrow> World" where
  "with_directory subs w = w\<lparr>server := (server w)\<lparr>Subsystems := subs\<rparr>\<rparr>"

text \<open>
  The states the server reaches from an empty registry: by any request, and by any change
  of the subsystem directory.
\<close>

inductive reachable :: "Env \<Rightarrow> World \<Rightarrow> bool" for env :: Env where
  init: "Namespaces (server w) = Map.empty \<Longrightarrow> reachable env w"
| request: "reachable env w \<Longrightarrow> reachable env (after env w r)"
| directory: "reachable env w \<Longrightarrow> reachable env (with_directory subs w)"

text \<open>The descriptor that \<^verbatim>\<open>GetNvmeNamespace\<close> returns for a host identifier.\<close>

definition found_descriptor :: "int32 \<Rightarrow> NvmeNamespace" where
  "found_descriptor h =
     \<lparr>Name = [],
      Spec = Some \<lparr>SubsystemId = None, HostNsid = h, VolumeId = None, Uuid = None, Nguid = [],
                   Eui64 = 0\<rparr>,
      Status = Some \<lparr>PciState = 2, PciOperState = 1\<rparr>\<rparr>"

subsection \<open>An environment and states to evaluate the handlers on\<close>

text \<open>
  Modelled from the spec: the validation libraries, \<^verbatim>\<open>server.ResourceIDToVolumeName\<close>,
  \<^verbatim>\<open>server.ExtractPagination\<close> and the engine are outside the source. This instance of
  the environment follows what the spec says of them: a required field that is missing
  is a validation failure reported before any lookup; the resolved name is the path of
  the collection segment \<^verbatim>\<open>namespaces\<close> and the identifier; a page token resolves to
  the offset stored for it, an unknown one fails, and no token is offset 0; the engine
  accepts every attach and detach and reports nothing. The general theorems below hold
  for every environment; this one is used to evaluate them.
\<close>

definition demo_env :: Env where
  "demo_env =
     \<lparr>ValidateRequiredFields =
        (\<lambda>r. case r of
           CreateReq c \<Rightarrow>
             (if cr_NvmeNamespace c = None then Some ''missing required field: nvme_namespace''
              else None)
         | DeleteReq d \<Rightarrow>
             (if del_Name d = [] then Some ''missing required field: name'' else None)
         | UpdateReq u \<Rightarrow>
             (if upd_NvmeNamespace u = None then Some ''missing required field: nvme_namespace''
              else None)
         | ListReq l \<Rightarrow>
             (if Parent l = [] then Some ''missing required field: parent'' else None)
         | GetReq g \<Rightarrow>
             (if get_Name g = [] then Some ''missing required field: name'' else None)
         | StatsReq s \<Rightarrow>
             (if NamespaceId s = None then Some ''missing required field: namespace_id''
              else None)),
      ValidateUserSettable =
        (\<lambda>i. if length i < 4 \<or> 63 < length i
              then Some ''user-settable ID must be between 4 and 63 characters'' else None),
      resourcename_Validate = (\<lambda>n. if n = [] then Some ''empty'' else None),
      fieldmask_Validate = (\<lambda>m n. None),
      ResourceIDToVolumeName = (\<lambda>i. ''namespaces/'' @ i),
      ExtractPagination =
        (\<lambda>pageSize pageToken pagination.
           if pageToken = [] then Inr (int_of_int32 pageSize, 0)
           else (case pagination pageToken of
                   None \<Rightarrow> Inl (StatusError InvalidArgument)
                 | Some offset \<Rightarrow> Inr (int_of_int32 pageSize, offset))),
      NewUUID = (\<lambda>n. word_of_nat n),
      rpc_attach = (\<lambda>log p. Inr True),
      rpc_detach = (\<lambda>log p. Inr True),
      rpc_list = (\<lambda>log p. Inr \<lparr>res_Namespaces = []\<rparr>),
      rpc_iostat = (\<lambda>log. Inr \<lparr>Controllers = []\<rparr>)\<rparr>"

definition empty_world :: World where
  "empty_world =
     \<lparr>server = \<lparr>Namespaces = Map.empty, Subsystems = Map.empty, Pagination = Map.empty\<rparr>,
      rpc_log = [], uuids_drawn = 0\<rparr>"

definition demo_spec :: NvmeNamespaceSpec where
  "demo_spec =
     \<lparr>SubsystemId = Some ''subsystems/nqn-1'', HostNsid = 5, VolumeId = Some ''v1'',
      Uuid = Some ''1b4e28ba-2fa1-11d2-883f-b9a761bde3fb'',
      Nguid = ''1b4e28ba2fa111d2883fb9a761bde3fb'', Eui64 = 0\<rparr>"

definition demo_create :: CreateNvmeNamespaceRequest where
  "demo_create =
     \<lparr>cr_NvmeNamespace = Some \<lparr>Name = [], Spec = Some demo_spec, Status = None\<rparr>,
      NvmeNamespaceId = ''ns-1''\<rparr>"

definition demo_stored :: NvmeNamespace where
  "demo_stored =
     \<lparr>Name = ''namespaces/ns-1'', Spec = Some demo_spec, Status = Some attached_status\<rparr>"

definition demo_server :: Server where
  "demo_server =
     \<lparr>Namespaces = Map.empty,
      Subsystems =
        [''subsystems/nqn-1'' \<mapsto> \<lparr>SubsysSpec = Some \<lparr>Nqn = ''nqn.2022-09.io.spdk:opi3''\<rparr>\<rparr>],
      Pagination = Map.empty\<rparr>"

definition demo_world :: World where
  "demo_world = \<lparr>server = demo_server, rpc_log = [], uuids_drawn = 0\<rparr>"

definition registered_world :: World where
  "registered_world =
     \<lparr>server = demo_server\<lparr>Namespaces := [''namespaces/ns-1'' \<mapsto> demo_stored]\<rparr>,
      rpc_log = [], uuids_drawn = 0\<rparr>"

text \<open>An engine that answers every attach with \<^verbatim>\<open>false\<close>.\<close>

definition rejecting_env :: Env where
  "rejecting_env = demo_env\<lparr>rpc_attach := (\<lambda>log p. Inr False)\<rparr>"

text \<open>An engine whose list command reports the given identifiers, in that order.\<close>

definition listing_env :: "go_int list \<Rightarrow> Env" where
  "listing_env nsids =
     demo_env\<lparr>rpc_list := (\<lambda>log p. Inr \<lparr>res_Namespaces = map (\<lambda>n. \<lparr>Nsid = n\<rparr>) nsids\<rparr>)\<rparr>"

text \<open>An engine whose iostat reports one controller with the device \<^verbatim>\<open>v1\<close>.\<close>

definition stats_env :: Env where
  "stats_env =
     demo_env\<lparr>rpc_iostat :=
       (\<lambda>log. Inr \<lparr>Controllers =
                     [\<lparr>Bdevs = [\<lparr>BdevName = ''v1'', ReadIos = 10, WriteIos = 3\<rparr>]\<rparr>]\<rparr>)\<rparr>"

text \<open>The registered namespace with the volume id \<^verbatim>\<open>volumes/v1\<close>.\<close>

definition prefixed_world :: World where
  "prefixed_world =
     \<lparr>server = demo_server\<lparr>Namespaces :=
        [''namespaces/ns-1'' \<mapsto>
           demo_stored\<lparr>Spec := Some (demo_spec\<lparr>VolumeId := Some ''volumes/v1''\<rparr>)\<rparr>]\<rparr>,
      rpc_log = [], uuids_drawn = 0\<rparr>"

text \<open>The registered namespace after its subsystem has left the directory.\<close>

definition orphan_world :: World where
  "orphan_world = with_directory Map.empty registered_world"

definition other_spec :: NvmeNamespaceSpec where
  "other_spec =
     \<lparr>SubsystemId = Some ''subsystems/nqn-2'', HostNsid = 9, VolumeId = Some ''v2'',
      Uuid = None, Nguid = [], Eui64 = 7\<rparr>"

definition other_create :: CreateNvmeNamespaceRequest where
  "other_create =
     \<lparr>cr_NvmeNamespace = Some \<lparr>Name = ''ignored'', Spec = Some other_spec, Status = None\<rparr>,
      NvmeNamespaceId = ''ns-1''\<rparr>"

definition demo_get :: GetNvmeNamespaceRequest where
  "demo_get = \<lparr>get_Name = ''namespaces/ns-1''\<rparr>"

definition demo_stats :: NvmeNamespaceStatsRequest where
  "demo_stats = \<lparr>NamespaceId = Some ''namespaces/ns-1''\<rparr>"

definition demo_delete :: DeleteNvmeNamespaceRequest where
  "demo_delete = \<lparr>del_Name = ''namespaces/ns-1'', del_AllowMissing = False\<rparr>"

text \<open>The window of the engine's result that a page size and an offset select.\<close>

definition engine_window ::
  "NvdaControllerNvmeNamespaceListResult \<Rightarrow> go_int \<Rightarrow> go_int \<Rightarrow> NvdaNamespaceEntry list" where
  "engine_window result offset size' =
     take (nat (sint size')) (drop (nat (sint offset)) (res_Namespaces result))"

definition demo_list :: ListNvmeNamespacesRequest where
  "demo_list = \<lparr>Parent = ''subsystems/nqn-1'', PageSize = 2, PageToken = []\<rparr>"

text \<open>Every entry of the registry is stored under its own name, and the name is one that
  \<^verbatim>\<open>server.ResourceIDToVolumeName\<close> produces.\<close>

definition registry_keyed :: "Env \<Rightarrow> World \<Rightarrow> bool" where
  "registry_keyed env w \<longleftrightarrow>
     (\<forall>k v. Namespaces (server w) k = Some v \<longrightarrow>
        Name v = k \<and> (\<exists>i. k = ResourceIDToVolumeName env i))"

section \<open>Properties\<close>

subsection \<open>The log and the UUID counter\<close>

lemma server_called [simp]: "server (called c w) = server w"
  and rpc_log_called [simp]: "rpc_log (called c w) = rpc_log w @ [c]"
  and uuids_called [simp]: "uuids_drawn (called c w) = uuids_drawn w"
  by (simp_all add: called_def)

lemma server_draw_uuid [simp]: "server (draw_uuid w) = server w"
  and rpc_log_draw_uuid [simp]: "rpc_log (draw_uuid w) = rpc_log w"
  and uuids_draw_uuid [simp]: "uuids_drawn (draw_uuid w) = Suc (uuids_drawn w)"
  by (simp_all add: draw_uuid_def)

lemma attach_count_called [simp]:
  "attach_count (called c w) = (if is_Attach c then Suc (attach_count w) else attach_count w)"
  by (simp add: attach_count_def)

lemma attach_count_draw_uuid [simp]: "attach_count (draw_uuid w) = attach_count w"
  by (simp add: attach_count_def)

lemma attach_count_server_update [simp]: "attach_count (w\<lparr>server := s\<rparr>) = attach_count w"
  by (simp add: attach_count_def)

lemmas demo_defs = demo_env_def demo_spec_def demo_create_def demo_stored_def demo_server_def
  demo_world_def registered_world_def empty_world_def

subsection \<open>Create: the cases of the handler\<close>

lemma resolve_create_draws:
  "resolve_create env w req = Inr x \<Longrightarrow> create_draws env req"
  by (auto simp: resolve_create_def create_draws_def split: option.splits if_splits)

lemma resolve_create_user_id:
  "resolve_create env w req = Inr (ns, sp, sid, name) \<Longrightarrow> NvmeNamespaceId req \<noteq> [] \<Longrightarrow>
     name = ResourceIDToVolumeName env (NvmeNamespaceId req)"
  by (auto simp: resolve_create_def split: option.splits if_splits)

lemma resolve_create_form:
  "resolve_create env w req = Inr (ns, sp, sid, name) \<Longrightarrow>
     \<exists>i. name = ResourceIDToVolumeName env i"
  by (auto simp: resolve_create_def split: option.splits if_splits)

lemma Create_existing:
  "resolve_create env w req = Inr (ns, sp, sid, name) \<Longrightarrow>
   Namespaces (server w) name = Some e \<Longrightarrow>
     CreateNvmeNamespace env w req = (Inr e, draw_uuid w)"
  by (frule resolve_create_draws) (simp add: CreateNvmeNamespace_def)

lemma Create_failure_server:
  "CreateNvmeNamespace env w req = (Inl e, w') \<Longrightarrow> server w' = server w"
  by (auto simp: CreateNvmeNamespace_def Let_def
           split: option.splits sum.splits if_splits prod.splits)

lemma Create_success_resolves:
  "CreateNvmeNamespace env w req = (Inr n, w') \<Longrightarrow> \<exists>x. resolve_create env w req = Inr x"
  by (cases "resolve_create env w req") (auto simp: CreateNvmeNamespace_def)

lemma Create_success:
  "resolve_create env w req = Inr (ns, sp, sid, name) \<Longrightarrow>
   CreateNvmeNamespace env w req = (Inr n, w') \<Longrightarrow>
     (case Namespaces (server w) name of
        Some e \<Rightarrow> n = e \<and> w' = draw_uuid w
      | None \<Rightarrow> n = ns\<lparr>Name := name, Status := Some attached_status\<rparr> \<and>
          (\<exists>p. w' = (called (Attach p) (draw_uuid w))
             \<lparr>server := (server w)\<lparr>Namespaces := (Namespaces (server w))(name \<mapsto> n)\<rparr>\<rparr>))"
  by (frule resolve_create_draws)
     (auto simp: CreateNvmeNamespace_def Let_def split: option.splits sum.splits if_splits)

lemma demo_resolve:
  "resolve_create demo_env w demo_create =
     Inr (\<lparr>Name = [], Spec = Some demo_spec, Status = None\<rparr>, demo_spec, ''subsystems/nqn-1'',
          ''namespaces/ns-1'')"
  by (simp add: resolve_create_def demo_env_def demo_create_def demo_spec_def)

lemma rejecting_resolve:
  "resolve_create rejecting_env w demo_create =
     Inr (\<lparr>Name = [], Spec = Some demo_spec, Status = None\<rparr>, demo_spec, ''subsystems/nqn-1'',
          ''namespaces/ns-1'')"
  by (simp add: resolve_create_def rejecting_env_def demo_env_def demo_create_def demo_spec_def)

lemma demo_first_create:
  "CreateNvmeNamespace demo_env demo_world demo_create =
     (Inr demo_stored,
      (called (Attach (attach_params demo_spec ''v1'' ''nqn.2022-09.io.spdk:opi3''
                         ''1b4e28ba-2fa1-11d2-883f-b9a761bde3fb'')) (draw_uuid demo_world))
        \<lparr>server := demo_server\<lparr>Namespaces := [''namespaces/ns-1'' \<mapsto> demo_stored]\<rparr>\<rparr>)"
  unfolding CreateNvmeNamespace_def demo_resolve
  by (simp add: Let_def create_draws_def demo_defs)

lemma rejecting_create:
  "CreateNvmeNamespace rejecting_env demo_world demo_create =
     (Inl (StatusError InvalidArgument),
      called (Attach (attach_params demo_spec ''v1'' ''nqn.2022-09.io.spdk:opi3''
                        ''1b4e28ba-2fa1-11d2-883f-b9a761bde3fb'')) (draw_uuid demo_world))"
  unfolding CreateNvmeNamespace_def rejecting_resolve
  by (simp add: Let_def create_draws_def rejecting_env_def demo_defs)

subsection \<open>Create is idempotent on the resolved name\<close>

text \<open>
  Claim C1. When the registry already holds an entry under the name that the request
  resolves to, \<^verbatim>\<open>CreateNvmeNamespace\<close> returns that entry, makes no engine call and leaves
  the registry, the subsystem directory and the pagination store as they were. Hence,
  when a Create with a caller-supplied identifier has returned a namespace, a second
  Create with the same identifier returns the same namespace, changes nothing and calls
  the engine no more; when the name was not registered before the first call, the two
  calls together have issued exactly one attach.
\<close>

theorem Create_idempotent:
  "(\<forall>ns sp sid name e.
      resolve_create env w req = Inr (ns, sp, sid, name) \<and>
      Namespaces (server w) name = Some e \<longrightarrow>
      fst (CreateNvmeNamespace env w req) = Inr e \<and>
      server (snd (CreateNvmeNamespace env w req)) = server w \<and>
      rpc_log (snd (CreateNvmeNamespace env w req)) = rpc_log w) \<and>
   (\<forall>req2 n1 w1 x2.
      NvmeNamespaceId req \<noteq> [] \<and> NvmeNamespaceId req2 = NvmeNamespaceId req \<and>
      CreateNvmeNamespace env w req = (Inr n1, w1) \<and> resolve_create env w1 req2 = Inr x2 \<longrightarrow>
      fst (CreateNvmeNamespace env w1 req2) = Inr n1 \<and>
      server (snd (CreateNvmeNamespace env w1 req2)) = server w1 \<and>
      rpc_log (snd (CreateNvmeNamespace env w1 req2)) = rpc_log w1 \<and>
      (Namespaces (server w) (ResourceIDToVolumeName env (NvmeNamespaceId req)) = None \<longrightarrow>
       attach_count (snd (CreateNvmeNamespace env w1 req2)) = Suc (attach_count w)))"
proof (intro conjI allI impI)
  fix ns sp sid name e
  assume "resolve_create env w req = Inr (ns, sp, sid, name) \<and>
          Namespaces (server w) name = Some e"
  then have "CreateNvmeNamespace env w req = (Inr e, draw_uuid w)"
    by (simp add: Create_existing)
  then show "fst (CreateNvmeNamespace env w req) = Inr e"
    and "server (snd (CreateNvmeNamespace env w req)) = server w"
    and "rpc_log (snd (CreateNvmeNamespace env w req)) = rpc_log w"
    by simp_all
next
  fix req2 n1 w1 x2
  assume a: "NvmeNamespaceId req \<noteq> [] \<and> NvmeNamespaceId req2 = NvmeNamespaceId req \<and>
      CreateNvmeNamespace env w req = (Inr n1, w1) \<and> resolve_create env w1 req2 = Inr x2"
  let ?name = "ResourceIDToVolumeName env (NvmeNamespaceId req)"
  from a obtain ns sp sid name where r1: "resolve_create env w req = Inr (ns, sp, sid, name)"
    using Create_success_resolves by (metis prod_cases4)
  with a have name: "name = ?name"
    by (simp add: resolve_create_user_id)
  obtain ns2 sp2 sid2 name2 where x2: "x2 = (ns2, sp2, sid2, name2)"
    by (cases x2) auto
  with a have "resolve_create env w1 req2 = Inr (ns2, sp2, sid2, name2)"
    and "NvmeNamespaceId req2 \<noteq> []" by simp_all
  then have "name2 = ResourceIDToVolumeName env (NvmeNamespaceId req2)"
    by (rule resolve_create_user_id)
  with a have name2: "name2 = ?name" by simp
  from r1 a have c: "case Namespaces (server w) name of
        Some e \<Rightarrow> n1 = e \<and> w1 = draw_uuid w
      | None \<Rightarrow> n1 = ns\<lparr>Name := name, Status := Some attached_status\<rparr> \<and>
          (\<exists>p. w1 = (called (Attach p) (draw_uuid w))
             \<lparr>server := (server w)\<lparr>Namespaces := (Namespaces (server w))(name \<mapsto> n1)\<rparr>\<rparr>)"
    by (simp add: Create_success)
  then have stored: "Namespaces (server w1) ?name = Some n1"
    using name by (auto split: option.splits)
  with a x2 name2 have second: "CreateNvmeNamespace env w1 req2 = (Inr n1, draw_uuid w1)"
    by (simp add: Create_existing)
  then show "fst (CreateNvmeNamespace env w1 req2) = Inr n1"
    and "server (snd (CreateNvmeNamespace env w1 req2)) = server w1"
    and "rpc_log (snd (CreateNvmeNamespace env w1 req2)) = rpc_log w1"
    by simp_all
  assume "Namespaces (server w) ?name = None"
  with c name have "attach_count w1 = Suc (attach_count w)"
    by (auto simp: is_Attach_def)
  with second show "attach_count (snd (CreateNvmeNamespace env w1 req2)) = Suc (attach_count w)"
    by simp
qed

theorem Create_idempotent_witness:
  "fst (CreateNvmeNamespace demo_env registered_world demo_create) = Inr demo_stored \<and>
   server (snd (CreateNvmeNamespace demo_env registered_world demo_create))
     = server registered_world \<and>
   rpc_log (snd (CreateNvmeNamespace demo_env registered_world demo_create)) = [] \<and>
   fst (CreateNvmeNamespace demo_env demo_world demo_create) = Inr demo_stored \<and>
   fst (CreateNvmeNamespace demo_env (snd (CreateNvmeNamespace demo_env demo_world demo_create))
          demo_create) = Inr demo_stored \<and>
   attach_count (snd (CreateNvmeNamespace demo_env
          (snd (CreateNvmeNamespace demo_env demo_world demo_create)) demo_create)) = 1"
proof -
  let ?w1 = "snd (CreateNvmeNamespace demo_env demo_world demo_create)"
  have reg: "Namespaces (server registered_world) ''namespaces/ns-1'' = Some demo_stored"
    by (simp add: registered_world_def)
  have first: "CreateNvmeNamespace demo_env demo_world demo_create = (Inr demo_stored, ?w1)"
    by (simp add: demo_first_create)
  have ident: "NvmeNamespaceId demo_create \<noteq> []"
    by (simp add: demo_create_def)
  have fresh: "Namespaces (server demo_world)
                 (ResourceIDToVolumeName demo_env (NvmeNamespaceId demo_create)) = None"
    by (simp add: demo_defs)
  have zero: "attach_count demo_world = 0"
    by (simp add: attach_count_def demo_world_def)
  have repeated:
    "fst (CreateNvmeNamespace demo_env registered_world demo_create) = Inr demo_stored \<and>
     server (snd (CreateNvmeNamespace demo_env registered_world demo_create))
       = server registered_world \<and>
     rpc_log (snd (CreateNvmeNamespace demo_env registered_world demo_create))
       = rpc_log registered_world"
    using Create_idempotent [of demo_env registered_world demo_create] demo_resolve reg
    by blast
  have hyp: "NvmeNamespaceId demo_create \<noteq> [] \<and>
      NvmeNamespaceId demo_create = NvmeNamespaceId demo_create \<and>
      CreateNvmeNamespace demo_env demo_world demo_create = (Inr demo_stored, ?w1) \<and>
      resolve_create demo_env ?w1 demo_create =
        Inr (\<lparr>Name = [], Spec = Some demo_spec, Status = None\<rparr>, demo_spec,
             ''subsystems/nqn-1'', ''namespaces/ns-1'')"
    using ident first demo_resolve by simp
  have twice: "fst (CreateNvmeNamespace demo_env ?w1 demo_create) = Inr demo_stored \<and>
      attach_count (snd (CreateNvmeNamespace demo_env ?w1 demo_create))
        = Suc (attach_count demo_world)"
    using Create_idempotent [of demo_env demo_world demo_create] hyp fresh
    by blast
  have once: "fst (CreateNvmeNamespace demo_env demo_world demo_create) = Inr demo_stored"
    by (simp add: demo_first_create)
  have none: "rpc_log registered_world = []"
    by (simp add: registered_world_def)
  show ?thesis
    using repeated twice once zero none by simp
qed

subsection \<open>Create registers or leaves no trace\<close>

text \<open>
  Claim C6. Whenever \<^verbatim>\<open>CreateNvmeNamespace\<close> fails (a validation error, invalid
  subsystem parameters, an invalid identifier, an unknown subsystem, an error or a
  rejection of the engine, a panic), the server state is the one before the call; and
  for a request that resolves to a name, the registry has an entry under that name after
  the call exactly when the call succeeded or the entry was there before.
\<close>

theorem Create_atomic:
  "(\<forall>e. fst (CreateNvmeNamespace env w req) = Inl e \<longrightarrow>
      server (snd (CreateNvmeNamespace env w req)) = server w) \<and>
   (\<forall>ns sp sid name. resolve_create env w req = Inr (ns, sp, sid, name) \<longrightarrow>
      (name \<in> dom (Namespaces (server (snd (CreateNvmeNamespace env w req)))) \<longleftrightarrow>
       (\<exists>n. fst (CreateNvmeNamespace env w req) = Inr n) \<or>
       name \<in> dom (Namespaces (server w))))"
proof (intro conjI allI impI)
  fix e assume "fst (CreateNvmeNamespace env w req) = Inl e"
  then show "server (snd (CreateNvmeNamespace env w req)) = server w"
    using Create_failure_server [of env w req e "snd (CreateNvmeNamespace env w req)"]
    by (metis prod.collapse)
next
  fix ns sp sid name
  assume r: "resolve_create env w req = Inr (ns, sp, sid, name)"
  obtain res w' where c: "CreateNvmeNamespace env w req = (res, w')"
    by (cases "CreateNvmeNamespace env w req")
  show "name \<in> dom (Namespaces (server (snd (CreateNvmeNamespace env w req)))) \<longleftrightarrow>
       (\<exists>n. fst (CreateNvmeNamespace env w req) = Inr n) \<or> name \<in> dom (Namespaces (server w))"
  proof (cases res)
    case (Inl e)
    with c have "server w' = server w"
      by (simp add: Create_failure_server)
    moreover have "name \<notin> dom (Namespaces (server w))"
    proof
      assume "name \<in> dom (Namespaces (server w))"
      then obtain e' where "Namespaces (server w) name = Some e'" by auto
      with r have "CreateNvmeNamespace env w req = (Inr e', draw_uuid w)"
        by (rule Create_existing)
      with c Inl show False by simp
    qed
    ultimately show ?thesis using c Inl by simp
  next
    case (Inr n)
    with c r have "case Namespaces (server w) name of
        Some e \<Rightarrow> n = e \<and> w' = draw_uuid w
      | None \<Rightarrow> n = ns\<lparr>Name := name, Status := Some attached_status\<rparr> \<and>
          (\<exists>p. w' = (called (Attach p) (draw_uuid w))
             \<lparr>server := (server w)\<lparr>Namespaces := (Namespaces (server w))(name \<mapsto> n)\<rparr>\<rparr>)"
      by (simp add: Create_success)
    then have "name \<in> dom (Namespaces (server w'))"
      by (auto split: option.splits)
    with c Inr show ?thesis by simp
  qed
qed

theorem Create_atomic_witness:
  "fst (CreateNvmeNamespace rejecting_env demo_world demo_create)
     = Inl (StatusError InvalidArgument) \<and>
   server (snd (CreateNvmeNamespace rejecting_env demo_world demo_create)) = server demo_world \<and>
   ''namespaces/ns-1''
     \<notin> dom (Namespaces (server (snd (CreateNvmeNamespace rejecting_env demo_world demo_create)))) \<and>
   ''namespaces/ns-1''
     \<in> dom (Namespaces (server (snd (CreateNvmeNamespace demo_env demo_world demo_create))))"
proof -
  have failed: "fst (CreateNvmeNamespace rejecting_env demo_world demo_create)
                  = Inl (StatusError InvalidArgument)"
    by (simp add: rejecting_create)
  have absent: "''namespaces/ns-1'' \<notin> dom (Namespaces (server demo_world))"
    by (simp add: demo_world_def demo_server_def)
  have succeeded: "fst (CreateNvmeNamespace demo_env demo_world demo_create) = Inr demo_stored"
    by (simp add: demo_first_create)
  show ?thesis
    using Create_atomic [of rejecting_env demo_world demo_create]
      Create_atomic [of demo_env demo_world demo_create]
      failed absent succeeded rejecting_resolve demo_resolve
    by auto
qed

subsection \<open>Delete of a name that is not registered\<close>

text \<open>
  Claim C3, as amended. For every \<^verbatim>\<open>DeleteNvmeNamespace\<close> request that passes the
  required-field and the resource-name validation and whose name is not in the registry:
  with \<^verbatim>\<open>allow_missing\<close> the call succeeds, without it the call fails NotFound, and in both
  cases no engine call is made and the state (server, log) is unchanged.
\<close>

theorem Delete_absent:
  assumes "ValidateRequiredFields env (DeleteReq req) = None"
      and "resourcename_Validate env (del_Name req) = None"
      and "Namespaces (server w) (del_Name req) = None"
  shows "DeleteNvmeNamespace env w req =
           (if del_AllowMissing req then Inr () else Inl (StatusError NotFound), w)"
  using assms by (simp add: DeleteNvmeNamespace_def)

theorem Delete_absent_witness:
  "DeleteNvmeNamespace demo_env empty_world
       \<lparr>del_Name = ''namespaces/ns-1'', del_AllowMissing = True\<rparr>
     = (Inr (), empty_world) \<and>
   DeleteNvmeNamespace demo_env empty_world
       \<lparr>del_Name = ''namespaces/ns-1'', del_AllowMissing = False\<rparr>
     = (Inl (StatusError NotFound), empty_world)"
  using Delete_absent [of demo_env
          "\<lparr>del_Name = ''namespaces/ns-1'', del_AllowMissing = True\<rparr>" empty_world]
        Delete_absent [of demo_env
          "\<lparr>del_Name = ''namespaces/ns-1'', del_AllowMissing = False\<rparr>" empty_world]
  by (simp add: demo_env_def empty_world_def)

text \<open>
  The claim as stated fails on a request that the validation rejects: the name is absent
  from the registry and \<^verbatim>\<open>allow_missing\<close> is set, and the call returns the error of
  \<^verbatim>\<open>fieldbehavior.ValidateRequiredFields\<close>.
\<close>

theorem Delete_absent_counterexample:
  "Namespaces (server empty_world) [] = None \<and>
   DeleteNvmeNamespace demo_env empty_world \<lparr>del_Name = [], del_AllowMissing = True\<rparr>
     = (Inl (GoError ''missing required field: name''), empty_world)"
  by (simp add: DeleteNvmeNamespace_def demo_env_def empty_world_def)

subsection \<open>Create does not compare the request with the stored entry\<close>

text \<open>
  Claim C9. When the registry holds an entry under the resolved name,
  \<^verbatim>\<open>CreateNvmeNamespace\<close> returns that entry whatever spec the request carries: two
  requests that resolve to the same registered name, with any specs, both get the stored
  entry, neither is rejected, and the registry keeps the stored entry.
\<close>

theorem Create_ignores_spec:
  assumes "resolve_create env w req = Inr (ns, sp, sid, name)"
      and "resolve_create env w req' = Inr (ns', sp', sid', name)"
      and "Namespaces (server w) name = Some e"
  shows "fst (CreateNvmeNamespace env w req) = Inr e \<and>
         fst (CreateNvmeNamespace env w req') = Inr e \<and>
         Namespaces (server (snd (CreateNvmeNamespace env w req'))) name = Some e"
  using assms by (simp add: Create_existing)

lemma other_resolve:
  "resolve_create demo_env w other_create =
     Inr (\<lparr>Name = ''ignored'', Spec = Some other_spec, Status = None\<rparr>, other_spec,
          ''subsystems/nqn-2'', ''namespaces/ns-1'')"
  by (simp add: resolve_create_def demo_env_def other_create_def other_spec_def)

theorem Create_ignores_spec_witness:
  "fst (CreateNvmeNamespace demo_env registered_world other_create) = Inr demo_stored \<and>
   Spec demo_stored \<noteq> Some other_spec \<and>
   Namespaces (server (snd (CreateNvmeNamespace demo_env registered_world other_create)))
     ''namespaces/ns-1'' = Some demo_stored"
proof -
  have reg: "Namespaces (server registered_world) ''namespaces/ns-1'' = Some demo_stored"
    by (simp add: registered_world_def)
  have differ: "Spec demo_stored \<noteq> Some other_spec"
    by (simp add: demo_stored_def demo_spec_def other_spec_def)
  from Create_ignores_spec [OF demo_resolve other_resolve reg] differ
  show ?thesis by simp
qed

subsection \<open>Conversions between \<^verbatim>\<open>int32\<close> and \<^verbatim>\<open>int\<close>\<close>

lemma int32_of_int_of_int32 [simp]: "int32_of_int (int_of_int32 h) = h"
proof -
  have "is_down (ucast :: 64 word \<Rightarrow> 32 word)"
    by (simp add: is_down)
  then have "(ucast :: 64 word \<Rightarrow> 32 word) = scast"
    by (rule down_cast_same)
  moreover have "is_up (scast :: 32 word \<Rightarrow> 64 word)"
    by (simp add: is_up)
  ultimately show ?thesis
    by (simp add: int32_of_int_def int_of_int32_def scast_up_scast_id)
qed

lemma sint_int_of_int32 [simp]: "sint (int_of_int32 h) = sint h"
  by (simp add: int_of_int32_def sint_up_scast is_up)

lemma eq_int_of_int32_iff: "r = int_of_int32 h \<longleftrightarrow> sint r = sint h"
  by (metis sint_int_of_int32 word_eq_iff_signed)

subsection \<open>Get\<close>

text \<open>
  Claim C2, as amended. For every \<^verbatim>\<open>GetNvmeNamespace\<close> request that passes the
  required-field and the resource-name validation: when the name is not in the registry
  the call fails NotFound; when the name is registered, its subsystem is in the
  directory and the engine's list command returns a result, the call fails
  InvalidArgument if no reported identifier equals the stored host identifier, and
  otherwise returns the descriptor with that identifier and the status PciState 2,
  PciOperState 1.
\<close>

theorem Get_outcomes:
  assumes "ValidateRequiredFields env (GetReq req) = None"
      and "resourcename_Validate env (get_Name req) = None"
  shows "(Namespaces (server w) (get_Name req) = None \<longrightarrow>
            fst (GetNvmeNamespace env w req) = Inl (StatusError NotFound)) \<and>
         (\<forall>namespace sp sid subsys ssp result.
            Namespaces (server w) (get_Name req) = Some namespace \<and> Spec namespace = Some sp \<and>
            SubsystemId sp = Some sid \<and> Subsystems (server w) sid = Some subsys \<and>
            SubsysSpec subsys = Some ssp \<and>
            rpc_list env (rpc_log w) \<lparr>lst_Subnqn = Nqn ssp, lst_Cntlid = 0\<rparr> = Inr result \<longrightarrow>
            fst (GetNvmeNamespace env w req) =
              (if \<exists>r \<in> set (res_Namespaces result). sint (Nsid r) = sint (HostNsid sp)
               then Inr (found_descriptor (HostNsid sp))
               else Inl (StatusError InvalidArgument)))"
proof (intro conjI allI impI)
  assume "Namespaces (server w) (get_Name req) = None"
  with assms show "fst (GetNvmeNamespace env w req) = Inl (StatusError NotFound)"
    by (simp add: GetNvmeNamespace_def)
next
  fix namespace sp sid subsys ssp result
  assume a: "Namespaces (server w) (get_Name req) = Some namespace \<and> Spec namespace = Some sp \<and>
            SubsystemId sp = Some sid \<and> Subsystems (server w) sid = Some subsys \<and>
            SubsysSpec subsys = Some ssp \<and>
            rpc_list env (rpc_log w) \<lparr>lst_Subnqn = Nqn ssp, lst_Cntlid = 0\<rparr> = Inr result"
  let ?P = "\<lambda>r. Nsid r = int_of_int32 (HostNsid sp)"
  have g: "fst (GetNvmeNamespace env w req) =
             (case find ?P (res_Namespaces result) of
                Some r \<Rightarrow> Inr (found_descriptor (int32_of_int (Nsid r)))
              | None \<Rightarrow> Inl (StatusError InvalidArgument))"
    using assms a
    by (simp add: GetNvmeNamespace_def Let_def found_descriptor_def split: option.splits)
  show "fst (GetNvmeNamespace env w req) =
              (if \<exists>r \<in> set (res_Namespaces result). sint (Nsid r) = sint (HostNsid sp)
               then Inr (found_descriptor (HostNsid sp))
               else Inl (StatusError InvalidArgument))"
  proof (cases "find ?P (res_Namespaces result)")
    case None
    then have "\<not> (\<exists>r \<in> set (res_Namespaces result). sint (Nsid r) = sint (HostNsid sp))"
      by (simp add: find_None_iff eq_int_of_int32_iff)
    with g None show ?thesis by simp
  next
    case (Some r)
    then have "r \<in> set (res_Namespaces result)" and p: "Nsid r = int_of_int32 (HostNsid sp)"
      by (auto simp: find_Some_iff)
    then have "\<exists>r \<in> set (res_Namespaces result). sint (Nsid r) = sint (HostNsid sp)"
      by (auto simp: eq_int_of_int32_iff)
    with g Some p show ?thesis by simp
  qed
qed

theorem Get_outcomes_witness:
  "fst (GetNvmeNamespace (listing_env [3, 5]) demo_world demo_get) = Inl (StatusError NotFound) \<and>
   fst (GetNvmeNamespace (listing_env [3, 5]) registered_world demo_get)
     = Inr (found_descriptor 5) \<and>
   fst (GetNvmeNamespace (listing_env [3, 1]) registered_world demo_get)
     = Inl (StatusError InvalidArgument)"
proof -
  have v: "ValidateRequiredFields (listing_env xs) (GetReq demo_get) = None"
          "resourcename_Validate (listing_env xs) (get_Name demo_get) = None" for xs
    by (simp_all add: listing_env_def demo_env_def demo_get_def)
  have absent: "Namespaces (server demo_world) (get_Name demo_get) = None"
    by (simp add: demo_defs demo_get_def)
  have reg: "Namespaces (server registered_world) (get_Name demo_get) = Some demo_stored \<and>
      Spec demo_stored = Some demo_spec \<and> SubsystemId demo_spec = Some ''subsystems/nqn-1'' \<and>
      Subsystems (server registered_world) ''subsystems/nqn-1''
        = Some \<lparr>SubsysSpec = Some \<lparr>Nqn = ''nqn.2022-09.io.spdk:opi3''\<rparr>\<rparr> \<and>
      SubsysSpec \<lparr>SubsysSpec = Some \<lparr>Nqn = ''nqn.2022-09.io.spdk:opi3''\<rparr>\<rparr>
        = Some \<lparr>Nqn = ''nqn.2022-09.io.spdk:opi3''\<rparr> \<and>
      rpc_list (listing_env xs) (rpc_log registered_world)
          \<lparr>lst_Subnqn = Nqn \<lparr>Nqn = ''nqn.2022-09.io.spdk:opi3''\<rparr>, lst_Cntlid = 0\<rparr>
        = Inr \<lparr>res_Namespaces = map (\<lambda>n. \<lparr>Nsid = n\<rparr>) xs\<rparr>" for xs
    by (simp add: demo_defs demo_get_def listing_env_def)
  have h: "HostNsid demo_spec = 5"
    by (simp add: demo_spec_def)
  from Get_outcomes [where env = "listing_env [3, 5]" and req = demo_get and w = demo_world, OF v]
    absent
  have 1: "fst (GetNvmeNamespace (listing_env [3, 5]) demo_world demo_get)
             = Inl (StatusError NotFound)"
    by blast
  from Get_outcomes [where env = "listing_env [3, 5]" and req = demo_get
         and w = registered_world, OF v] reg [of "[3, 5]"]
  have "fst (GetNvmeNamespace (listing_env [3, 5]) registered_world demo_get) =
      (if \<exists>r \<in> set (res_Namespaces \<lparr>res_Namespaces = map (\<lambda>n. \<lparr>Nsid = n\<rparr>) [3, 5]\<rparr>).
             sint (Nsid r) = sint (HostNsid demo_spec)
       then Inr (found_descriptor (HostNsid demo_spec)) else Inl (StatusError InvalidArgument))"
    by blast
  then have 2: "fst (GetNvmeNamespace (listing_env [3, 5]) registered_world demo_get)
     = Inr (found_descriptor 5)"
    by (simp add: h)
  from Get_outcomes [where env = "listing_env [3, 1]" and req = demo_get
         and w = registered_world, OF v] reg [of "[3, 1]"]
  have "fst (GetNvmeNamespace (listing_env [3, 1]) registered_world demo_get) =
      (if \<exists>r \<in> set (res_Namespaces \<lparr>res_Namespaces = map (\<lambda>n. \<lparr>Nsid = n\<rparr>) [3, 1]\<rparr>).
             sint (Nsid r) = sint (HostNsid demo_spec)
       then Inr (found_descriptor (HostNsid demo_spec)) else Inl (StatusError InvalidArgument))"
    by blast
  then have 3: "fst (GetNvmeNamespace (listing_env [3, 1]) registered_world demo_get)
     = Inl (StatusError InvalidArgument)"
    by (simp add: h)
  from 1 2 3 show ?thesis by simp
qed

text \<open>
  The claim as stated fails on a request that the validation rejects: the name is absent
  from the registry and the call returns the error of
  \<^verbatim>\<open>fieldbehavior.ValidateRequiredFields\<close>, which is not a NotFound status.
\<close>

theorem Get_outcomes_counterexample:
  "Namespaces (server empty_world) [] = None \<and>
   GetNvmeNamespace demo_env empty_world \<lparr>get_Name = []\<rparr>
     = (Inl (GoError ''missing required field: name''), empty_world)"
  by (simp add: GetNvmeNamespace_def demo_env_def empty_world_def)

subsection \<open>Stats\<close>

lemma find_append_case:
  "find P (xs @ ys) = (case find P xs of Some x \<Rightarrow> Some x | None \<Rightarrow> find P ys)"
  by (induction xs) auto

lemma scan_bdevs_find: "scan_bdevs vol rs = find (\<lambda>r. BdevName r = vol) rs"
  by (induction rs) auto

lemma scan_controllers_find:
  "scan_controllers vol cs = find (\<lambda>r. BdevName r = vol) (concat (map Bdevs cs))"
  by (induction cs) (auto simp: find_append_case scan_bdevs_find split: option.splits)

text \<open>
  Claim C7, as amended. \<^verbatim>\<open>NvmeNamespaceStats\<close> on a registered namespace, for a request
  that passes validation and an iostat call that returns a result, scans the devices of
  all controllers for the first one whose name equals the value of the registry entry's
  volume id, compared as it is stored, and returns that device's read and write
  counters converted to \<^verbatim>\<open>int32\<close>; when no device has that name it fails
  InvalidArgument. For a namespace whose volume id is \<^verbatim>\<open>v1\<close> and a device \<^verbatim>\<open>v1\<close> with
  \<^verbatim>\<open>read_ios=10\<close>, \<^verbatim>\<open>write_ios=3\<close> the counters are read 10, write 3.
\<close>

theorem Stats_outcomes:
  assumes "ValidateRequiredFields env (StatsReq req) = None"
      and "NamespaceId req = Some key"
      and "resourcename_Validate env key = None"
      and "Namespaces (server w) key = Some namespace"
      and "Spec namespace = Some sp"
      and "VolumeId sp = Some vol"
      and "rpc_iostat env (rpc_log w) = Inr result"
  shows "fst (NvmeNamespaceStats env w req) =
           (case find (\<lambda>r. BdevName r = vol) (concat (map Bdevs (Controllers result))) of
              Some r \<Rightarrow>
                Inr \<lparr>Id = Some key,
                     Stats = Some \<lparr>ReadOpsCount = int32_of_int (ReadIos r),
                                   WriteOpsCount = int32_of_int (WriteIos r)\<rparr>\<rparr>
            | None \<Rightarrow> Inl (StatusError InvalidArgument))"
  using assms
  by (simp add: NvmeNamespaceStats_def Let_def scan_controllers_find split: option.splits)

theorem Stats_outcomes_witness:
  "fst (NvmeNamespaceStats stats_env registered_world demo_stats) =
     Inr \<lparr>Id = Some ''namespaces/ns-1'',
          Stats = Some \<lparr>ReadOpsCount = 10, WriteOpsCount = 3\<rparr>\<rparr> \<and>
   fst (NvmeNamespaceStats demo_env registered_world demo_stats)
     = Inl (StatusError InvalidArgument)"
  using Stats_outcomes [of stats_env demo_stats "''namespaces/ns-1''" registered_world demo_stored
          demo_spec "''v1''"
          "\<lparr>Controllers = [\<lparr>Bdevs = [\<lparr>BdevName = ''v1'', ReadIos = 10, WriteIos = 3\<rparr>]\<rparr>]\<rparr>"]
        Stats_outcomes [of demo_env demo_stats "''namespaces/ns-1''" registered_world demo_stored
          demo_spec "''v1''" "\<lparr>Controllers = []\<rparr>"]
  by (simp add: demo_defs stats_env_def demo_stats_def int32_of_int_def)

text \<open>
  The example of the claim fails: the registry entry's volume id is \<^verbatim>\<open>volumes/v1\<close>, the
  iostat response has the device \<^verbatim>\<open>v1\<close> with 10 reads and 3 writes, and the call fails
  InvalidArgument, since line 314 compares the two strings as they are.
\<close>

theorem Stats_example_counterexample:
  "Namespaces (server prefixed_world) ''namespaces/ns-1''
     = Some (demo_stored\<lparr>Spec := Some (demo_spec\<lparr>VolumeId := Some ''volumes/v1''\<rparr>)\<rparr>) \<and>
   rpc_iostat stats_env [] =
     Inr \<lparr>Controllers = [\<lparr>Bdevs = [\<lparr>BdevName = ''v1'', ReadIos = 10, WriteIos = 3\<rparr>]\<rparr>]\<rparr> \<and>
   fst (NvmeNamespaceStats stats_env prefixed_world demo_stats)
     = Inl (StatusError InvalidArgument)"
  by (simp add: NvmeNamespaceStats_def Let_def demo_defs stats_env_def demo_stats_def
        prefixed_world_def)

subsection \<open>The subsystem directory after creation\<close>

lemma with_directory_simps [simp]:
  "Namespaces (server (with_directory subs w)) = Namespaces (server w)"
  "Subsystems (server (with_directory subs w)) = subs"
  "Pagination (server (with_directory subs w)) = Pagination (server w)"
  "rpc_log (with_directory subs w) = rpc_log w"
  "uuids_drawn (with_directory subs w) = uuids_drawn w"
  by (simp_all add: with_directory_def)

lemma called_with_directory:
  "called c (with_directory subs w) = with_directory subs (called c w)"
  by (simp add: called_def with_directory_def)

text \<open>
  Claim C8, as amended. Only \<^verbatim>\<open>NvmeNamespaceStats\<close> is independent of the subsystem
  directory: its result is the same for every directory. \<^verbatim>\<open>GetNvmeNamespace\<close> and
  \<^verbatim>\<open>DeleteNvmeNamespace\<close> look the subsystem of a registered namespace up again: when it
  is no longer in the directory, Get fails NotFound and Delete fails with the plain error
  \<^verbatim>\<open>unable to find subsystem\<close>, both without an engine call and without a change of
  state.
\<close>

theorem subsystem_looked_up_again:
  "(\<forall>subs. fst (NvmeNamespaceStats env (with_directory subs w) sreq)
             = fst (NvmeNamespaceStats env w sreq) \<and>
           snd (NvmeNamespaceStats env (with_directory subs w) sreq)
             = with_directory subs (snd (NvmeNamespaceStats env w sreq))) \<and>
   (\<forall>namespace sp sid.
      ValidateRequiredFields env (GetReq greq) = None \<and>
      resourcename_Validate env (get_Name greq) = None \<and>
      Namespaces (server w) (get_Name greq) = Some namespace \<and> Spec namespace = Some sp \<and>
      SubsystemId sp = Some sid \<and> Subsystems (server w) sid = None \<longrightarrow>
      GetNvmeNamespace env w greq = (Inl (StatusError NotFound), w)) \<and>
   (\<forall>namespace sp sid.
      ValidateRequiredFields env (DeleteReq dreq) = None \<and>
      resourcename_Validate env (del_Name dreq) = None \<and>
      Namespaces (server w) (del_Name dreq) = Some namespace \<and> Spec namespace = Some sp \<and>
      SubsystemId sp = Some sid \<and> Subsystems (server w) sid = None \<longrightarrow>
      DeleteNvmeNamespace env w dreq =
        (Inl (GoError (''unable to find subsystem '' @ sid)), w))"
proof (intro conjI allI impI)
  fix subs
  show "fst (NvmeNamespaceStats env (with_directory subs w) sreq)
             = fst (NvmeNamespaceStats env w sreq)"
    by (simp add: NvmeNamespaceStats_def Let_def split: option.splits sum.splits)
  show "snd (NvmeNamespaceStats env (with_directory subs w) sreq)
             = with_directory subs (snd (NvmeNamespaceStats env w sreq))"
    by (simp add: NvmeNamespaceStats_def Let_def called_with_directory
             split: option.splits sum.splits)
next
  fix namespace sp sid
  assume "ValidateRequiredFields env (GetReq greq) = None \<and>
      resourcename_Validate env (get_Name greq) = None \<and>
      Namespaces (server w) (get_Name greq) = Some namespace \<and> Spec namespace = Some sp \<and>
      SubsystemId sp = Some sid \<and> Subsystems (server w) sid = None"
  then show "GetNvmeNamespace env w greq = (Inl (StatusError NotFound), w)"
    by (simp add: GetNvmeNamespace_def)
next
  fix namespace sp sid
  assume "ValidateRequiredFields env (DeleteReq dreq) = None \<and>
      resourcename_Validate env (del_Name dreq) = None \<and>
      Namespaces (server w) (del_Name dreq) = Some namespace \<and> Spec namespace = Some sp \<and>
      SubsystemId sp = Some sid \<and> Subsystems (server w) sid = None"
  then show "DeleteNvmeNamespace env w dreq =
               (Inl (GoError (''unable to find subsystem '' @ sid)), w)"
    by (simp add: DeleteNvmeNamespace_def)
qed

theorem subsystem_looked_up_again_witness:
  "fst (NvmeNamespaceStats stats_env orphan_world demo_stats)
     = fst (NvmeNamespaceStats stats_env registered_world demo_stats) \<and>
   GetNvmeNamespace (listing_env [5]) orphan_world demo_get
     = (Inl (StatusError NotFound), orphan_world) \<and>
   DeleteNvmeNamespace demo_env orphan_world demo_delete
     = (Inl (GoError ''unable to find subsystem subsystems/nqn-1''), orphan_world)"
proof -
  have g: "ValidateRequiredFields (listing_env [5]) (GetReq demo_get) = None \<and>
      resourcename_Validate (listing_env [5]) (get_Name demo_get) = None \<and>
      Namespaces (server orphan_world) (get_Name demo_get) = Some demo_stored \<and>
      Spec demo_stored = Some demo_spec \<and>
      SubsystemId demo_spec = Some ''subsystems/nqn-1'' \<and>
      Subsystems (server orphan_world) ''subsystems/nqn-1'' = None"
    by (simp add: demo_defs demo_get_def listing_env_def orphan_world_def)
  have d: "ValidateRequiredFields demo_env (DeleteReq demo_delete) = None \<and>
      resourcename_Validate demo_env (del_Name demo_delete) = None \<and>
      Namespaces (server orphan_world) (del_Name demo_delete) = Some demo_stored \<and>
      Spec demo_stored = Some demo_spec \<and>
      SubsystemId demo_spec = Some ''subsystems/nqn-1'' \<and>
      Subsystems (server orphan_world) ''subsystems/nqn-1'' = None"
    by (simp add: demo_defs demo_delete_def orphan_world_def)
  from subsystem_looked_up_again [where env = stats_env and w = registered_world
         and sreq = demo_stats]
  have 1: "fst (NvmeNamespaceStats stats_env orphan_world demo_stats)
     = fst (NvmeNamespaceStats stats_env registered_world demo_stats)"
    unfolding orphan_world_def by blast
  from subsystem_looked_up_again [where env = "listing_env [5]" and w = orphan_world
         and greq = demo_get] g
  have 2: "GetNvmeNamespace (listing_env [5]) orphan_world demo_get
     = (Inl (StatusError NotFound), orphan_world)"
    by blast
  from subsystem_looked_up_again [where env = demo_env and w = orphan_world
         and dreq = demo_delete] d
  have 3: "DeleteNvmeNamespace demo_env orphan_world demo_delete
     = (Inl (GoError (''unable to find subsystem '' @ ''subsystems/nqn-1'')), orphan_world)"
    by blast
  from 1 2 3 show ?thesis by simp
qed

text \<open>
  The claim as stated fails: two states that differ only in the directory entry of the
  namespace's subsystem give different results of Get and of Delete.
\<close>

theorem subsystem_not_revalidated_counterexample:
  "Namespaces (server orphan_world) = Namespaces (server registered_world) \<and>
   Pagination (server orphan_world) = Pagination (server registered_world) \<and>
   rpc_log orphan_world = rpc_log registered_world \<and>
   fst (GetNvmeNamespace (listing_env [5]) registered_world demo_get)
     = Inr (found_descriptor 5) \<and>
   fst (GetNvmeNamespace (listing_env [5]) orphan_world demo_get)
     = Inl (StatusError NotFound) \<and>
   fst (DeleteNvmeNamespace demo_env registered_world demo_delete) = Inr () \<and>
   fst (DeleteNvmeNamespace demo_env orphan_world demo_delete)
     = Inl (GoError ''unable to find subsystem subsystems/nqn-1'')"
  by (simp add: GetNvmeNamespace_def DeleteNvmeNamespace_def Let_def demo_defs demo_get_def
        demo_delete_def listing_env_def orphan_world_def found_descriptor_def
        int_of_int32_def int32_of_int_def with_directory_def)

subsection \<open>Pagination\<close>

lemma sint_add_no_wrap:
  fixes a b :: go_int
  assumes "0 \<le> sint a" and "0 \<le> sint (a + b)"
  shows "sint (a + b) = sint a + sint b"
proof -
  let ?s = "sint a + sint b"
  have e: "sint (a + b) = signed_take_bit 63 ?s"
    by (simp add: sint_word_ariths)
  have lo: "- (2 ^ 63) \<le> sint b" and hi: "sint a < 2 ^ 63" "sint b < 2 ^ 63"
    using sint_ge [of b] sint_lt [of a] sint_lt [of b] by simp_all
  have p: "(2::int) ^ Suc 63 = 2 * 2 ^ 63"
    by (rule power_Suc)
  from assms(2) have nonneg: "0 \<le> signed_take_bit 63 ?s"
    unfolding e .
  have "?s < 2 ^ 63"
  proof (rule ccontr)
    assume "\<not> ?s < 2 ^ 63"
    then have "2 ^ 63 \<le> ?s" by linarith
    then have "signed_take_bit 63 ?s \<le> ?s - 2 ^ Suc 63"
      by (rule signed_take_bit_int_less_eq)
    with nonneg hi p show False by linarith
  qed
  moreover have "- (2 ^ 63) \<le> ?s"
    using lo assms(1) by linarith
  ultimately have "signed_take_bit 63 ?s = ?s"
    by (intro signed_take_bit_int_eq_self)
  with e show ?thesis by (simp only:)
qed

lemma LimitPagination_success:
  assumes "LimitPagination xs offset size' = Inr (page, hasMore)"
  shows "0 \<le> sint offset \<and> 0 \<le> sint size' \<and> sint offset \<le> int (length xs) \<and>
         sint (offset + size') = sint offset + sint size' \<and>
         page = take (nat (sint size')) (drop (nat (sint offset)) xs) \<and>
         hasMore = (sint offset + sint size' < int (length xs))"
proof -
  let ?e = "sint (offset + size')"
  from assms have o: "0 \<le> sint offset"
    by (simp add: LimitPagination_def Let_def split: if_splits)
  from assms have "0 \<le> ?e"
    by (auto simp: LimitPagination_def Let_def split: if_splits)
  with o have e: "?e = sint offset + sint size'"
    by (rule sint_add_no_wrap)
  show ?thesis
  proof (cases "?e < int (length xs)")
    case True
    with assms e show ?thesis
      by (auto simp: LimitPagination_def Let_def split: if_splits)
  next
    case False
    with assms have le: "sint offset \<le> int (length xs)"
      and p: "page = take (nat (int (length xs) - sint offset)) (drop (nat (sint offset)) xs)"
      and m: "hasMore = False"
      by (auto simp: LimitPagination_def Let_def split: if_splits)
    from False e have "int (length xs) - sint offset \<le> sint size'" by simp
    then have "length (drop (nat (sint offset)) xs) \<le> nat (sint size')"
      using le o by simp
    with p have "page = take (nat (sint size')) (drop (nat (sint offset)) xs)"
      using le o by simp
    with False e o le m show ?thesis by simp
  qed
qed

lemma length_hex_digits [simp]: "length (hex_digits n v) = n"
  by (induction n arbitrary: v) simp_all

lemma length_uuid_String: "length (uuid_String u) = 36"
  by (simp add: uuid_String_def Let_def)

lemma next_uuid_string_not_empty: "next_uuid_string env w \<noteq> []"
  using length_uuid_String [of "NewUUID env (uuids_drawn w)"]
  by (auto simp: next_uuid_string_def)

lemma Spec_blob_of [simp]: "Spec (blob_of r) \<noteq> None"
  by (simp add: blob_of_def blob_def)

lemma sortNvmeNamespaces_blobs:
  "sortNvmeNamespaces (map blob_of page) = Inr (sort_key nsid_key (map blob_of page))"
  by (auto simp: sortNvmeNamespaces_def)

subsection \<open>List: the page and the continuation token\<close>

lemma next_uuid_string_called [simp]: "next_uuid_string env (called c w) = next_uuid_string env w"
  by (simp add: next_uuid_string_def)

lemma List_success_resolves:
  assumes "ListNvmeNamespaces env w req = (Inr resp, w')"
  shows "\<exists>k off subsys ssp result.
           ExtractPagination env (PageSize req) (PageToken req) (Pagination (server w)) = Inr (k, off) \<and>
           Subsystems (server w) (Parent req) = Some subsys \<and> SubsysSpec subsys = Some ssp \<and>
           rpc_list env (rpc_log w) \<lparr>lst_Subnqn = Nqn ssp, lst_Cntlid = 0\<rparr> = Inr result"
  using assms
  by (auto simp: ListNvmeNamespaces_def Let_def split: option.splits sum.splits prod.splits)

lemma List_success:
  assumes "ListNvmeNamespaces env w req = (Inr resp, w')"
      and "ExtractPagination env (PageSize req) (PageToken req) (Pagination (server w)) = Inr (k, off)"
      and "Subsystems (server w) (Parent req) = Some subsys"
      and "SubsysSpec subsys = Some ssp"
      and "rpc_list env (rpc_log w) \<lparr>lst_Subnqn = Nqn ssp, lst_Cntlid = 0\<rparr> = Inr result"
  shows "0 \<le> sint off \<and> 0 \<le> sint k \<and> sint off \<le> int (length (res_Namespaces result)) \<and>
         sint (off + k) = sint off + sint k \<and>
         resp = \<lparr>NvmeNamespaces = sort_key nsid_key (map blob_of (engine_window result off k)),
                 NextPageToken = []\<rparr> \<and>
         w' = (if sint off + sint k < int (length (res_Namespaces result))
               then store_token (next_uuid_string env w) (off + k)
                      (draw_uuid (called (ListNs \<lparr>lst_Subnqn = Nqn ssp, lst_Cntlid = 0\<rparr>) w))
               else called (ListNs \<lparr>lst_Subnqn = Nqn ssp, lst_Cntlid = 0\<rparr>) w)"
proof -
  from assms obtain page hasMore
    where l: "LimitPagination (res_Namespaces result) off k = Inr (page, hasMore)"
    by (auto simp: ListNvmeNamespaces_def Let_def split: option.splits sum.splits prod.splits)
  note f = LimitPagination_success [OF l]
  from assms l have "resp = \<lparr>NvmeNamespaces = sort_key nsid_key (map blob_of page), NextPageToken = []\<rparr>"
    and "w' = (if hasMore
               then store_token (next_uuid_string env w) (off + k)
                      (draw_uuid (called (ListNs \<lparr>lst_Subnqn = Nqn ssp, lst_Cntlid = 0\<rparr>) w))
               else called (ListNs \<lparr>lst_Subnqn = Nqn ssp, lst_Cntlid = 0\<rparr>) w)"
    by (auto simp: ListNvmeNamespaces_def Let_def sortNvmeNamespaces_blobs split: option.splits)
  with f show ?thesis
    by (simp add: engine_window_def)
qed

lemma Pagination_store_token [simp]:
  "Pagination (server (store_token t v w)) = (Pagination (server w))(t \<mapsto> v)"
  by (simp add: store_token_def)

text \<open>
  Claim C4. A successful \<^verbatim>\<open>ListNvmeNamespaces\<close> call has resolved a page size \<open>k\<close> and an
  offset \<open>off\<close>, found the parent subsystem and received a result from the engine. Its
  response holds at most \<open>k\<close> entries, those of the window of the engine's result that
  starts at \<open>off\<close>. When entries remain beyond the window (\<open>off + k\<close> is less than the
  number of entries) the text of a newly drawn UUID, which is not empty, is stored in the
  pagination store with the offset \<open>off + k\<close>, computed without overflow; otherwise the
  pagination store is unchanged.
\<close>

theorem List_window_and_token:
  assumes "ListNvmeNamespaces env w req = (Inr resp, w')"
  shows "\<exists>k off subsys ssp result.
           ExtractPagination env (PageSize req) (PageToken req) (Pagination (server w)) = Inr (k, off) \<and>
           Subsystems (server w) (Parent req) = Some subsys \<and> SubsysSpec subsys = Some ssp \<and>
           rpc_list env (rpc_log w) \<lparr>lst_Subnqn = Nqn ssp, lst_Cntlid = 0\<rparr> = Inr result \<and>
           0 \<le> sint k \<and> 0 \<le> sint off \<and>
           int (length (NvmeNamespaces resp)) \<le> sint k \<and>
           mset (NvmeNamespaces resp) = mset (map blob_of (engine_window result off k)) \<and>
           (if sint off + sint k < int (length (res_Namespaces result))
            then next_uuid_string env w \<noteq> [] \<and>
                 Pagination (server w') = (Pagination (server w))(next_uuid_string env w \<mapsto> off + k) \<and>
                 sint (off + k) = sint off + sint k \<and>
                 uuids_drawn w' = Suc (uuids_drawn w)
            else Pagination (server w') = Pagination (server w))"
proof -
  from List_success_resolves [OF assms] obtain k off subsys ssp result
    where r: "ExtractPagination env (PageSize req) (PageToken req) (Pagination (server w)) = Inr (k, off)"
      "Subsystems (server w) (Parent req) = Some subsys" "SubsysSpec subsys = Some ssp"
      "rpc_list env (rpc_log w) \<lparr>lst_Subnqn = Nqn ssp, lst_Cntlid = 0\<rparr> = Inr result"
    by blast
  note s = List_success [OF assms r]
  from s have "length (NvmeNamespaces resp) \<le> nat (sint k)" and "0 \<le> sint k"
    by (simp_all add: engine_window_def)
  then have len: "int (length (NvmeNamespaces resp)) \<le> sint k"
    by linarith
  from s have ms: "mset (NvmeNamespaces resp) = mset (map blob_of (engine_window result off k))"
    by simp
  have tok: "if sint off + sint k < int (length (res_Namespaces result))
            then next_uuid_string env w \<noteq> [] \<and>
                 Pagination (server w') = (Pagination (server w))(next_uuid_string env w \<mapsto> off + k) \<and>
                 sint (off + k) = sint off + sint k \<and>
                 uuids_drawn w' = Suc (uuids_drawn w)
            else Pagination (server w') = Pagination (server w)"
    using s by (simp add: next_uuid_string_not_empty store_token_def)
  from r s len ms tok show ?thesis by blast
qed

subsection \<open>List: the order of the page\<close>

lemma blob_of_blob: "blob_of r = blob (int32_of_int (Nsid r))"
  by (simp add: blob_of_def)

lemma nsid_key_blob [simp]: "nsid_key (blob h) = sint h"
  by (simp add: nsid_key_def blob_def)

lemma inj_on_nsid_key_blobs: "inj_on nsid_key (set (map blob hs))"
  by (rule inj_onI) (auto dest: signed_word_eqI)

lemma sort_blobs_determined:
  assumes "mset hs = mset hs'"
  shows "sort_key nsid_key (map blob hs) = sort_key nsid_key (map blob hs')"
proof (rule sort_key_inj_key_eq)
  from assms show "mset (map blob hs) = mset (sort_key nsid_key (map blob hs'))"
    by simp
  show "inj_on nsid_key (set (map blob hs))"
    by (rule inj_on_nsid_key_blobs)
  show "sorted (map nsid_key (sort_key nsid_key (map blob hs')))"
    by (rule sorted_sort_key)
qed

text \<open>\<^verbatim>\<open>sort.Slice\<close> is not stable, but on the elements of a page any sorted permutation is
  the one of the model.\<close>

lemma sorted_permutation_of_blobs:
  assumes "mset ys = mset (map blob hs)" and "sorted (map nsid_key ys)"
  shows "ys = sort_key nsid_key (map blob hs)"
  using sort_key_inj_key_eq [of "map blob hs" ys nsid_key] assms inj_on_nsid_key_blobs [of hs]
  by simp

lemma map_blob_of: "map blob_of rs = map blob (map (\<lambda>r. int32_of_int (Nsid r)) rs)"
  by (simp add: blob_of_blob)

lemma demo_list_first_page:
  "ListNvmeNamespaces (listing_env [3, 1, 2]) demo_world demo_list =
     (Inr \<lparr>NvmeNamespaces = [blob 1, blob 3], NextPageToken = []\<rparr>,
      store_token (next_uuid_string (listing_env [3, 1, 2]) demo_world) 2
        (draw_uuid (called (ListNs \<lparr>lst_Subnqn = ''nqn.2022-09.io.spdk:opi3'', lst_Cntlid = 0\<rparr>)
                      demo_world)))"
  by (simp add: ListNvmeNamespaces_def LimitPagination_def sortNvmeNamespaces_def Let_def
        listing_env_def demo_defs demo_list_def blob_of_def blob_def nsid_key_def
        int_of_int32_def int32_of_int_def next_uuid_string_def)

lemma demo_list_sorted_engine:
  "fst (ListNvmeNamespaces (listing_env [1, 2, 3]) demo_world demo_list) =
     Inr \<lparr>NvmeNamespaces = [blob 1, blob 2], NextPageToken = []\<rparr>"
  by (simp add: ListNvmeNamespaces_def LimitPagination_def sortNvmeNamespaces_def Let_def
        listing_env_def demo_defs demo_list_def blob_of_def blob_def nsid_key_def
        int_of_int32_def int32_of_int_def next_uuid_string_def)

theorem List_window_and_token_witness:
  "fst (ListNvmeNamespaces (listing_env [3, 1, 2]) demo_world demo_list)
     = Inr \<lparr>NvmeNamespaces = [blob 1, blob 3], NextPageToken = []\<rparr> \<and>
   length [blob 1, blob 3] \<le> 2 \<and>
   mset [blob 1, blob 3] = mset [blob 3, blob 1] \<and>
   next_uuid_string (listing_env [3, 1, 2]) demo_world \<noteq> [] \<and>
   Pagination (server (snd (ListNvmeNamespaces (listing_env [3, 1, 2]) demo_world demo_list)))
     = [next_uuid_string (listing_env [3, 1, 2]) demo_world \<mapsto> 2]"
proof -
  let ?env = "listing_env [3, 1, 2]"
  let ?resp = "\<lparr>NvmeNamespaces = [blob 1, blob 3], NextPageToken = []\<rparr>"
  let ?w' = "store_token (next_uuid_string ?env demo_world) 2
        (draw_uuid (called (ListNs \<lparr>lst_Subnqn = ''nqn.2022-09.io.spdk:opi3'', lst_Cntlid = 0\<rparr>)
                      demo_world))"
  have e: "ExtractPagination ?env (PageSize demo_list) (PageToken demo_list)
             (Pagination (server demo_world)) = Inr (2, 0)"
    by (simp add: listing_env_def demo_defs demo_list_def int_of_int32_def)
  have s: "Subsystems (server demo_world) (Parent demo_list)
             = Some \<lparr>SubsysSpec = Some \<lparr>Nqn = ''nqn.2022-09.io.spdk:opi3''\<rparr>\<rparr>"
    by (simp add: demo_defs demo_list_def)
  have r: "rpc_list ?env l p = Inr \<lparr>res_Namespaces = [\<lparr>Nsid = 3\<rparr>, \<lparr>Nsid = 1\<rparr>, \<lparr>Nsid = 2\<rparr>]\<rparr>" for l p
    by (simp add: listing_env_def)
  have p: "Pagination (server demo_world) = Map.empty"
    by (simp add: demo_defs)
  from List_window_and_token [OF demo_list_first_page] obtain k off subsys ssp result where
    f: "ExtractPagination ?env (PageSize demo_list) (PageToken demo_list)
          (Pagination (server demo_world)) = Inr (k, off)"
       "Subsystems (server demo_world) (Parent demo_list) = Some subsys"
       "SubsysSpec subsys = Some ssp"
       "rpc_list ?env (rpc_log demo_world) \<lparr>lst_Subnqn = Nqn ssp, lst_Cntlid = 0\<rparr> = Inr result"
       "int (length (NvmeNamespaces ?resp)) \<le> sint k"
       "mset (NvmeNamespaces ?resp) = mset (map blob_of (engine_window result off k))"
       "if sint off + sint k < int (length (res_Namespaces result))
        then next_uuid_string ?env demo_world \<noteq> [] \<and>
             Pagination (server ?w') =
               (Pagination (server demo_world))(next_uuid_string ?env demo_world \<mapsto> off + k) \<and>
             sint (off + k) = sint off + sint k \<and>
             uuids_drawn ?w' = Suc (uuids_drawn demo_world)
        else Pagination (server ?w') = Pagination (server demo_world)"
    by blast
  from f(1) e have k: "k = 2" and off: "off = 0" by simp_all
  from f(4) r have res: "result = \<lparr>res_Namespaces = [\<lparr>Nsid = 3\<rparr>, \<lparr>Nsid = 1\<rparr>, \<lparr>Nsid = 2\<rparr>]\<rparr>"
    by simp
  from f(5) k have 1: "length (NvmeNamespaces ?resp) \<le> 2" by simp
  from f(6) k off res have 2: "mset (NvmeNamespaces ?resp) = mset [blob 3, blob 1]"
    by (simp add: engine_window_def blob_of_blob int32_of_int_def)
  from f(7) k off res p have 3: "next_uuid_string ?env demo_world \<noteq> [] \<and>
      Pagination (server ?w') = [next_uuid_string ?env demo_world \<mapsto> 2]"
    by simp
  from 1 2 3 show ?thesis
    unfolding demo_list_first_page by simp
qed

text \<open>
  Claim C5, as amended. The entries that a successful \<^verbatim>\<open>ListNvmeNamespaces\<close> call returns
  are in ascending order of host identifier. They are the sorted entries of the window
  of the engine's result that offset and page size select: the output depends only on
  the identifiers in that window, counted with multiplicity, and not on their order in
  it. The window is cut from the engine's order before the sort; it is the whole result
  when the offset is 0 and the result has at most page-size entries.
\<close>

theorem List_sorted_window:
  assumes "ListNvmeNamespaces env w req = (Inr resp, w')"
      and "ExtractPagination env (PageSize req) (PageToken req) (Pagination (server w)) = Inr (k, off)"
      and "Subsystems (server w) (Parent req) = Some subsys"
      and "SubsysSpec subsys = Some ssp"
      and "rpc_list env (rpc_log w) \<lparr>lst_Subnqn = Nqn ssp, lst_Cntlid = 0\<rparr> = Inr result"
  shows "sorted (map nsid_key (NvmeNamespaces resp)) \<and>
         NvmeNamespaces resp = sort_key nsid_key (map blob_of (engine_window result off k)) \<and>
         (\<forall>rs. mset (map (\<lambda>r. int32_of_int (Nsid r)) rs)
                 = mset (map (\<lambda>r. int32_of_int (Nsid r)) (engine_window result off k)) \<longrightarrow>
               sort_key nsid_key (map blob_of rs) = NvmeNamespaces resp) \<and>
         (sint off = 0 \<and> int (length (res_Namespaces result)) \<le> sint k \<longrightarrow>
            engine_window result off k = res_Namespaces result)"
proof -
  note s = List_success [OF assms]
  then have out: "NvmeNamespaces resp = sort_key nsid_key (map blob_of (engine_window result off k))"
    by simp
  then have srt: "sorted (map nsid_key (NvmeNamespaces resp))"
    by (simp add: sorted_sort_key)
  have det: "sort_key nsid_key (map blob_of rs) = NvmeNamespaces resp"
    if "mset (map (\<lambda>r. int32_of_int (Nsid r)) rs)
          = mset (map (\<lambda>r. int32_of_int (Nsid r)) (engine_window result off k))" for rs
    unfolding out map_blob_of using that by (rule sort_blobs_determined)
  have whole: "engine_window result off k = res_Namespaces result"
    if "sint off = 0 \<and> int (length (res_Namespaces result)) \<le> sint k"
  proof -
    from that have "length (res_Namespaces result) \<le> nat (sint k)" by linarith
    with that show ?thesis by (simp add: engine_window_def)
  qed
  from srt out det whole show ?thesis by blast
qed

theorem List_sorted_window_witness:
  "fst (ListNvmeNamespaces (listing_env [3, 1, 2]) demo_world demo_list)
     = Inr \<lparr>NvmeNamespaces = [blob 1, blob 3], NextPageToken = []\<rparr> \<and>
   sorted (map nsid_key [blob 1, blob 3]) \<and>
   sort_key nsid_key (map blob_of [\<lparr>Nsid = 1\<rparr>, \<lparr>Nsid = 3\<rparr>]) = [blob 1, blob 3]"
proof -
  let ?env = "listing_env [3, 1, 2]"
  have e: "ExtractPagination ?env (PageSize demo_list) (PageToken demo_list)
             (Pagination (server demo_world)) = Inr (2, 0)"
    by (simp add: listing_env_def demo_defs demo_list_def int_of_int32_def)
  have s: "Subsystems (server demo_world) (Parent demo_list)
             = Some \<lparr>SubsysSpec = Some \<lparr>Nqn = ''nqn.2022-09.io.spdk:opi3''\<rparr>\<rparr>"
    by (simp add: demo_defs demo_list_def)
  have ss: "SubsysSpec \<lparr>SubsysSpec = Some \<lparr>Nqn = ''nqn.2022-09.io.spdk:opi3''\<rparr>\<rparr>
             = Some \<lparr>Nqn = ''nqn.2022-09.io.spdk:opi3''\<rparr>"
    by simp
  have r: "rpc_list ?env (rpc_log demo_world)
             \<lparr>lst_Subnqn = Nqn \<lparr>Nqn = ''nqn.2022-09.io.spdk:opi3''\<rparr>, lst_Cntlid = 0\<rparr>
           = Inr \<lparr>res_Namespaces = [\<lparr>Nsid = 3\<rparr>, \<lparr>Nsid = 1\<rparr>, \<lparr>Nsid = 2\<rparr>]\<rparr>"
    by (simp add: listing_env_def)
  have w: "engine_window \<lparr>res_Namespaces = [\<lparr>Nsid = 3\<rparr>, \<lparr>Nsid = 1\<rparr>, \<lparr>Nsid = 2\<rparr>]\<rparr> 0 2
             = [\<lparr>Nsid = 3\<rparr>, \<lparr>Nsid = 1\<rparr>]"
    by (simp add: engine_window_def)
  have m: "mset (map (\<lambda>r. int32_of_int (Nsid r)) [\<lparr>Nsid = 1\<rparr>, \<lparr>Nsid = 3\<rparr>])
             = mset (map (\<lambda>r. int32_of_int (Nsid r)) [\<lparr>Nsid = 3\<rparr>, \<lparr>Nsid = 1\<rparr>])"
    by simp
  from List_sorted_window [OF demo_list_first_page e s ss r] w m
  have "sorted (map nsid_key [blob 1, blob 3]) \<and>
        sort_key nsid_key (map blob_of [\<lparr>Nsid = 1\<rparr>, \<lparr>Nsid = 3\<rparr>]) = [blob 1, blob 3]"
    by (metis ListNvmeNamespacesResponse.select_convs(1))
  then show ?thesis
    by (simp add: demo_list_first_page)
qed

text \<open>
  The claim as stated fails: the engine reports the same three identifiers in two orders,
  the page size is 2, and the two responses differ, since the window is cut before the
  sort.
\<close>

theorem List_order_counterexample:
  "mset [3, 1, 2 :: go_int] = mset [1, 2, 3] \<and>
   fst (ListNvmeNamespaces (listing_env [3, 1, 2]) demo_world demo_list)
     = Inr \<lparr>NvmeNamespaces = [blob 1, blob 3], NextPageToken = []\<rparr> \<and>
   fst (ListNvmeNamespaces (listing_env [1, 2, 3]) demo_world demo_list)
     = Inr \<lparr>NvmeNamespaces = [blob 1, blob 2], NextPageToken = []\<rparr> \<and>
   [blob 1, blob 3] \<noteq> [blob 1, blob 2]"
  by (simp add: demo_list_first_page demo_list_sorted_engine blob_def)

subsection \<open>The registry is keyed by name\<close>

lemma Update_world: "snd (UpdateNvmeNamespace env w r) = w"
  by (simp add: UpdateNvmeNamespace_def split: option.splits)

lemma Get_server: "server (snd (GetNvmeNamespace env w r)) = server w"
  by (simp add: GetNvmeNamespace_def Let_def split: option.splits sum.splits)

lemma Stats_server: "server (snd (NvmeNamespaceStats env w r)) = server w"
  by (simp add: NvmeNamespaceStats_def Let_def split: option.splits sum.splits)

lemma Namespaces_store_token [simp]:
  "Namespaces (server (store_token t v w)) = Namespaces (server w)"
  by (simp add: store_token_def)

lemma List_registry: "Namespaces (server (snd (ListNvmeNamespaces env w r))) = Namespaces (server w)"
  by (simp add: ListNvmeNamespaces_def Let_def split: option.splits sum.splits prod.splits)

lemma Delete_registry:
  "Namespaces (server (snd (DeleteNvmeNamespace env w r))) = Namespaces (server w) \<or>
   (\<exists>k. Namespaces (server (snd (DeleteNvmeNamespace env w r))) = (Namespaces (server w))(k := None))"
  by (simp add: DeleteNvmeNamespace_def Let_def split: option.splits sum.splits) blast

lemma Create_registry:
  "Namespaces (server (snd (CreateNvmeNamespace env w r))) = Namespaces (server w) \<or>
   (\<exists>i n. Name n = ResourceIDToVolumeName env i \<and>
      Namespaces (server (snd (CreateNvmeNamespace env w r)))
        = (Namespaces (server w))(ResourceIDToVolumeName env i \<mapsto> n))"
proof (cases "CreateNvmeNamespace env w r")
  case (Pair res w')
  show ?thesis
  proof (cases res)
    case (Inl e)
    with Pair have "server w' = server w" by (simp add: Create_failure_server)
    with Pair show ?thesis by simp
  next
    case (Inr n)
    with Pair obtain ns sp sid name where r: "resolve_create env w r = Inr (ns, sp, sid, name)"
      using Create_success_resolves by (metis prod_cases4)
    then obtain i where i: "name = ResourceIDToVolumeName env i"
      using resolve_create_form by blast
    from Create_success [OF r] Pair Inr
    have c: "case Namespaces (server w) name of
        Some e \<Rightarrow> n = e \<and> w' = draw_uuid w
      | None \<Rightarrow> n = ns\<lparr>Name := name, Status := Some attached_status\<rparr> \<and>
          (\<exists>p. w' = (called (Attach p) (draw_uuid w))
             \<lparr>server := (server w)\<lparr>Namespaces := (Namespaces (server w))(name \<mapsto> n)\<rparr>\<rparr>)"
      by simp
    show ?thesis
    proof (cases "Namespaces (server w) name")
      case None
      with c have "Name n = name"
        and "Namespaces (server w') = (Namespaces (server w))(name \<mapsto> n)"
        by auto
      with Pair i show ?thesis by auto
    next
      case (Some e)
      with c Pair show ?thesis by simp
    qed
  qed
qed

lemma after_registry:
  "Namespaces (server (after env w r)) = Namespaces (server w) \<or>
   (\<exists>c i n. r = CreateReq c \<and> Name n = ResourceIDToVolumeName env i \<and>
      Namespaces (server (after env w r)) = (Namespaces (server w))(ResourceIDToVolumeName env i \<mapsto> n)) \<or>
   (\<exists>d k. r = DeleteReq d \<and> Namespaces (server (after env w r)) = (Namespaces (server w))(k := None))"
proof (cases r)
  case (CreateReq c)
  with Create_registry [of env w c] show ?thesis by auto
next
  case (DeleteReq d)
  with Delete_registry [of env w d] show ?thesis by auto
qed (simp_all add: Update_world List_registry Get_server Stats_server)

lemma registry_keyed_after: "registry_keyed env w \<Longrightarrow> registry_keyed env (after env w r)"
  using after_registry [of env w r]
  by (auto simp: registry_keyed_def split: if_splits)

lemma reachable_registry_keyed: "reachable env w \<Longrightarrow> registry_keyed env w"
proof (induction rule: reachable.induct)
  case (init w)
  then show ?case by (simp add: registry_keyed_def)
next
  case (request w r)
  from request.IH show ?case by (rule registry_keyed_after)
next
  case (directory w subs)
  then show ?case by (simp add: registry_keyed_def)
qed

text \<open>
  Claim C10. In every state reached from an empty registry by requests to the six
  handlers (and by changes of the subsystem directory), every registry entry is stored
  under its own name, and that name is one that \<^verbatim>\<open>server.ResourceIDToVolumeName\<close>
  produces from an identifier. From any state, a request after which the registry has a
  new key is a Create, and a request after which a key is gone is a Delete.
\<close>

theorem registry_keyed_by_name:
  "(reachable env w \<longrightarrow>
      (\<forall>k v. Namespaces (server w) k = Some v \<longrightarrow>
         Name v = k \<and> (\<exists>i. k = ResourceIDToVolumeName env i))) \<and>
   (\<forall>k. k \<in> dom (Namespaces (server (after env w' r))) \<and> k \<notin> dom (Namespaces (server w')) \<longrightarrow>
      (\<exists>c. r = CreateReq c)) \<and>
   (\<forall>k. k \<in> dom (Namespaces (server w')) \<and> k \<notin> dom (Namespaces (server (after env w' r))) \<longrightarrow>
      (\<exists>d. r = DeleteReq d))"
proof (intro conjI allI impI)
  fix k v
  assume "reachable env w" and "Namespaces (server w) k = Some v"
  then show "Name v = k" and "\<exists>i. k = ResourceIDToVolumeName env i"
    using reachable_registry_keyed [of env w] by (auto simp: registry_keyed_def)
next
  fix k
  assume "k \<in> dom (Namespaces (server (after env w' r))) \<and> k \<notin> dom (Namespaces (server w'))"
  then show "\<exists>c. r = CreateReq c"
    using after_registry [of env w' r] by (auto split: if_splits)
next
  fix k
  assume "k \<in> dom (Namespaces (server w')) \<and> k \<notin> dom (Namespaces (server (after env w' r)))"
  then show "\<exists>d. r = DeleteReq d"
    using after_registry [of env w' r] by (auto split: if_splits)
qed

theorem registry_keyed_by_name_witness:
  "reachable demo_env (after demo_env demo_world (CreateReq demo_create)) \<and>
   Namespaces (server (after demo_env demo_world (CreateReq demo_create))) ''namespaces/ns-1''
     = Some demo_stored \<and>
   Name demo_stored = ''namespaces/ns-1'' \<and>
   (\<exists>i. ''namespaces/ns-1'' = ResourceIDToVolumeName demo_env i) \<and>
   ''namespaces/ns-1'' \<notin> dom (Namespaces (server demo_world))"
proof -
  let ?w = "after demo_env demo_world (CreateReq demo_create)"
  have "reachable demo_env demo_world"
    by (rule reachable.init) (simp add: demo_defs)
  then have r: "reachable demo_env ?w"
    by (rule reachable.request)
  have s: "Namespaces (server ?w) ''namespaces/ns-1'' = Some demo_stored"
    by (simp add: demo_first_create)
  have a: "''namespaces/ns-1'' \<notin> dom (Namespaces (server demo_world))"
    by (simp add: demo_defs)
  from registry_keyed_by_name [of demo_env ?w demo_world "CreateReq demo_create"] r s a
  show ?thesis by blast
qed

end
